theory Spec2Isabelle
  imports Complex_Main
begin

section \<open>Data model of ABClasses.py\<close>

text \<open>
  Python floats are modelled as reals (sums, products and powers are the exact ones),
  Python ints as \<open>int\<close>. Every random draw of numpy is an explicit input of the
  function that consumes it; a rejection loop reads its draws from a finite list and
  reports \<open>DrawsExhausted\<close> when the list ends before a draw is accepted (the source
  would go on drawing). The scipy objects (\<open>gaussian_kde\<close>, the gamma cdf) are
  parameters.
\<close>

type_synonym loc = "real \<times> real"
type_synonym cell = "int \<times> int"

datatype error = ValueError | IndexError | ZeroDivisionError | DrawsExhausted

text \<open>The attributes of class \<open>agent\<close>, in the order \<open>__init__\<close> assigns them.\<close>

record agent =
  ageBias :: real
  cleanlinessBias :: real
  socialDistanceBias :: real
  travelerBias :: real
  travelerBiasO :: real
  locationGranularity :: nat
  initialLocationBias :: "loc option"
  age :: real
  location :: loc
  preexistingCondition :: bool
  infected :: bool
  symptomatic :: bool
  alive :: bool
  protected :: bool
  infectionTime :: int
  infectionTimer :: int
  asymptomaticTime :: real
  asymptomaticTimer :: real

text \<open>
  The attributes of class \<open>environment\<close>. \<open>viralMap\<close> is the numpy array of shape
  \<open>(scale+1, scale+1)\<close>: the cells of the array are the pairs \<open>(i, j)\<close> with
  \<open>0 \<le> i, j \<le> scale\<close>.
\<close>

record environment =
  envGranularity :: nat
  attenuation :: real
  AOE :: int
  scale :: int
  viralMap :: "cell \<Rightarrow> real"

text \<open>The draws \<open>agent.__init__\<close> takes from numpy.\<close>

record init_draws =
  ageGroup :: nat
  ageOffset :: real
  ageNormals :: "real list"
  locNormal :: loc
  locUniform :: loc
  pecDraw :: real
  elderlyDraw :: real
  gammaDraw :: real

text \<open>
  The draws one call of \<open>agent.update\<close> takes from numpy: the uniform draw compared
  with \<open>socialDistanceBias\<close>, the standard normal pairs of the candidate locations, and
  the uniform draw of the infection check or of the death check (a call makes at most
  one of the two).
\<close>

record update_draws =
  moveDraw :: real
  normals :: "loc list"
  stateDraw :: real

section \<open>Numeric helpers\<close>

text \<open>
  Python's \<open>a ** x\<close> on floats, for a base \<open>a \<ge> 0\<close> and an exponent \<open>x \<ge> 0\<close>
  (\<open>0.0 ** 0.0\<close> is \<open>1.0\<close>). The documented range of \<open>attenuation\<close> is \<open>[0, 1]\<close>; a
  negative base leaves the floats (Python returns a complex number for a fractional
  exponent) and is outside this model.
\<close>

definition float_pow :: "real \<Rightarrow> real \<Rightarrow> real" where
  "float_pow a x = (if x = 0 then 1 else if a = 0 then 0 else a powr x)"

text \<open>Python's \<open>int(x)\<close> on a float: truncation towards zero.\<close>

definition py_int :: "real \<Rightarrow> int" where
  "py_int x = (if 0 \<le> x then \<lfloor>x\<rfloor> else \<lceil>x\<rceil>)"

text \<open>numpy's \<open>rint\<close> (half to even) and \<open>ndarray.round(decimals)\<close>.\<close>

definition np_rint :: "real \<Rightarrow> int" where
  "np_rint x =
     (let f = \<lfloor>x\<rfloor>; r = x - real_of_int f
      in if r < 1 / 2 then f else if 1 / 2 < r then f + 1 else if even f then f else f + 1)"

definition np_round :: "nat \<Rightarrow> real \<Rightarrow> real" where
  "np_round g x = real_of_int (np_rint (x * 10 ^ g)) / 10 ^ g"

definition round_loc :: "nat \<Rightarrow> loc \<Rightarrow> loc" where
  "round_loc g l = (np_round g (fst l), np_round g (snd l))"

text \<open>numpy indexing along an axis of length \<open>n\<close>: a negative index counts from the end.\<close>

definition np_index :: "int \<Rightarrow> int \<Rightarrow> error + int" where
  "np_index n i =
     (if 0 \<le> i \<and> i < n then Inr i
      else if - n \<le> i \<and> i < 0 then Inr (i + n)
      else Inl IndexError)"

section \<open>age_distribution\<close>

text \<open>
  The rejection loop of the normal mode; \<open>zs\<close> are the standard normal draws, so that
  \<open>np.random.normal(mean, 10)\<close> is \<open>mean + 10 * z\<close>.
\<close>

fun rejection_age :: "real \<Rightarrow> real list \<Rightarrow> error + real" where
  "rejection_age mean [] = Inl DrawsExhausted"
| "rejection_age mean (z # zs) =
     (if mean + 10 * z < 0 \<or> 104 < mean + 10 * z then rejection_age mean zs
      else Inr (mean + 10 * z))"

definition age_distribution :: "init_draws \<Rightarrow> real \<Rightarrow> error + real" where
  "age_distribution dr mean =
     (if mean \<le> 0 then Inr (5 * real (ageGroup dr) + 4 * ageOffset dr)
      else rejection_age mean (ageNormals dr))"

section \<open>agent.__init__\<close>

definition clamp01 :: "real \<Rightarrow> real" where
  "clamp01 x = min (max x 0) 1"

definition initial_location :: "init_draws \<Rightarrow> nat \<Rightarrow> loc option \<Rightarrow> loc" where
  "initial_location dr g ilb =
     (case ilb of
        Some b \<Rightarrow>
          (let l = round_loc g (fst b + (1 / 10 ^ g) * fst (locNormal dr),
                                snd b + (1 / 10 ^ g) * snd (locNormal dr))
           in (clamp01 (fst l), clamp01 (snd l)))
      | None \<Rightarrow> round_loc g (locUniform dr))"

text \<open>\<open>gamma_cdf\<close> stands for \<open>gamma(12, scale=4.5).cdf\<close> of scipy.\<close>

definition agent_init ::
  "(real \<Rightarrow> real) \<Rightarrow> init_draws \<Rightarrow> real \<Rightarrow> real \<Rightarrow> real \<Rightarrow> real \<Rightarrow> nat \<Rightarrow> loc option \<Rightarrow> error + agent" where
  "agent_init gamma_cdf dr ab cb sb tb g ilb =
     (case age_distribution dr ab of
        Inl e \<Rightarrow> Inl e
      | Inr ag \<Rightarrow>
          (let pec = (pecDraw dr < gamma_cdf ag);
               it = (if pec \<or> elderlyDraw dr < gamma_cdf ag then 7 * 4 else 7 * 2)
           in Inr \<lparr>ageBias = ab, cleanlinessBias = cb, socialDistanceBias = sb,
                   travelerBias = tb, travelerBiasO = tb, locationGranularity = g,
                   initialLocationBias = ilb, age = ag,
                   location = initial_location dr g ilb,
                   preexistingCondition = pec,
                   infected = False, symptomatic = False, alive = True, protected = False,
                   infectionTime = it, infectionTimer = it,
                   asymptomaticTime = gammaDraw dr, asymptomaticTimer = gammaDraw dr\<rparr>))"

section \<open>agent.update\<close>

subsection \<open>Movement\<close>

text \<open>
  One candidate: \<open>np.random.normal(self.location, self.travelerBias*10**(-g)).round(g)\<close>
  for the standard normal pair \<open>z\<close>.
\<close>

definition perturb :: "agent \<Rightarrow> loc \<Rightarrow> loc" where
  "perturb a z =
     round_loc (locationGranularity a)
       (fst (location a) + travelerBias a * (1 / 10 ^ locationGranularity a) * fst z,
        snd (location a) + travelerBias a * (1 / 10 ^ locationGranularity a) * snd z)"

text \<open>The test of the inner loop: \<open>np.all(0 < newLocation) and np.all(newLocation < 1)\<close>.\<close>

definition inside :: "loc \<Rightarrow> bool" where
  "inside l = (0 < fst l \<and> 0 < snd l \<and> fst l < 1 \<and> snd l < 1)"

text \<open>The inner rejection loop: the first accepted candidate and the draws left.\<close>

fun sample_location :: "agent \<Rightarrow> loc list \<Rightarrow> error + (loc \<times> loc list)" where
  "sample_location a [] = Inl DrawsExhausted"
| "sample_location a (z # zs) =
     (if inside (perturb a z) then Inr (perturb a z, zs) else sample_location a zs)"

text \<open>
  The outer loop \<open>while len(testLocations) < tests\<close>. \<open>np.random.normal\<close> raises
  ValueError on a negative scale.
\<close>

fun gather :: "nat \<Rightarrow> agent \<Rightarrow> loc list \<Rightarrow> error + loc list" where
  "gather 0 a zs = Inr []"
| "gather (Suc n) a zs =
     (if travelerBias a * (1 / 10 ^ locationGranularity a) < 0 then Inl ValueError
      else case sample_location a zs of
             Inl e \<Rightarrow> Inl e
           | Inr (l, zs') \<Rightarrow>
               (case gather n a zs' of Inl e \<Rightarrow> Inl e | Inr ls \<Rightarrow> Inr (l # ls)))"

definition dist2 :: "loc \<Rightarrow> loc \<Rightarrow> real" where
  "dist2 l m = (fst l - fst m)\<^sup>2 + (snd l - snd m)\<^sup>2"

text \<open>
  \<open>locations[np.argsort(...)[1:11]]\<close>: the locations ordered by squared distance to the
  agent, without the first, at most ten of them. Locations at equal distance keep the
  order of the population here; numpy's default sort does not promise an order for them.
\<close>

definition closestFriends :: "agent \<Rightarrow> agent list \<Rightarrow> loc list" where
  "closestFriends a population =
     take 10 (drop 1 (sort_key (\<lambda>l. dist2 l (location a)) (map location population)))"

text \<open>\<open>np.argmin\<close>: the first index of the least value.\<close>

definition argmin :: "real list \<Rightarrow> nat" where
  "argmin xs = length (takeWhile (\<lambda>x. Min (set xs) < x) xs)"

text \<open>
  The movement step of \<open>update\<close>. \<open>kde\<close> stands for scipy's \<open>gaussian_kde\<close>: from the
  neighbours' locations it builds the density that \<open>kde.evaluate\<close> computes, or raises.
\<close>

definition agent_move ::
  "(loc list \<Rightarrow> error + (loc \<Rightarrow> real)) \<Rightarrow> update_draws \<Rightarrow> agent \<Rightarrow> agent list \<Rightarrow> error + loc" where
  "agent_move kde dr a population =
     (if socialDistanceBias a < moveDraw dr then
        (case gather 1 a (normals dr) of
           Inl e \<Rightarrow> Inl e
         | Inr testLocations \<Rightarrow> Inr (testLocations ! 0))
      else
        (case kde (closestFriends a population) of
           Inl e \<Rightarrow> Inl e
         | Inr density \<Rightarrow>
             (case gather 10 a (normals dr) of
                Inl e \<Rightarrow> Inl e
              | Inr testLocations \<Rightarrow> Inr (testLocations ! argmin (map density testLocations)))))"

subsection \<open>Infection, recovery and death\<close>

definition agent_cell :: "environment \<Rightarrow> agent \<Rightarrow> cell" where
  "agent_cell env p =
     (py_int (fst (location p) * real_of_int (scale env)),
      py_int (snd (location p) * real_of_int (scale env)))"

text \<open>\<open>landscape.viralMap[i, j]\<close> on the array of shape \<open>(scale+1, scale+1)\<close>.\<close>

definition viral_lookup :: "environment \<Rightarrow> cell \<Rightarrow> error + real" where
  "viral_lookup env c =
     (case np_index (scale env + 1) (fst c) of
        Inl e \<Rightarrow> Inl e
      | Inr i \<Rightarrow>
          (case np_index (scale env + 1) (snd c) of
             Inl e \<Rightarrow> Inl e
           | Inr j \<Rightarrow> Inr (viralMap env (i, j))))"

definition deathFactor :: "agent \<Rightarrow> real" where
  "deathFactor a = (if preexistingCondition a then 105 / 1000 else 0)"

definition ageFactor :: "agent \<Rightarrow> real" where
  "ageFactor a =
     (if age a \<le> 39 then 2 / 1000
      else if 40 \<le> age a \<and> age a \<le> 49 then 4 / 1000
      else if 50 \<le> age a \<and> age a \<le> 59 then 13 / 1000
      else if 60 \<le> age a \<and> age a \<le> 69 then 36 / 1000
      else if 70 \<le> age a \<and> age a \<le> 79 then 8 / 100
      else 148 / 1000)"

text \<open>The threshold of the death check: \<open>(1-max(ageFactor, deathFactor))**(1/self.infectionTime)\<close>.\<close>

definition survival_threshold :: "agent \<Rightarrow> real" where
  "survival_threshold a =
     float_pow (1 - max (ageFactor a) (deathFactor a)) (1 / real_of_int (infectionTime a))"

text \<open>The branch \<open>if not self.infected and not self.protected\<close>.\<close>

definition exposure :: "update_draws \<Rightarrow> agent \<Rightarrow> environment \<Rightarrow> error + agent" where
  "exposure dr a landscape =
     (case viral_lookup landscape (agent_cell landscape a) of
        Inl e \<Rightarrow> Inl e
      | Inr v \<Rightarrow> Inr (if stateDraw dr < v then a\<lparr>infected := True\<rparr> else a))"

text \<open>The branch \<open>elif self.infected\<close>.\<close>

definition progress :: "update_draws \<Rightarrow> agent \<Rightarrow> error + agent" where
  "progress dr a =
     (if 0 < asymptomaticTimer a then Inr (a\<lparr>asymptomaticTimer := asymptomaticTimer a - 1\<rparr>)
      else
        (let a1 = a\<lparr>travelerBias := 1 / 2, infectionTimer := infectionTimer a - 1\<rparr>
         in if infectionTimer a1 = 0 then
              Inr (a1\<lparr>infected := False, protected := True,
                      infectionTimer := infectionTime a1,
                      asymptomaticTimer := asymptomaticTime a1,
                      travelerBias := travelerBiasO a1\<rparr>)
            else if infectionTime a1 = 0 then Inl ZeroDivisionError
            else if survival_threshold a1 \<le> stateDraw dr then Inr (a1\<lparr>alive := False\<rparr>)
            else Inr a1))"

definition agent_update ::
  "(loc list \<Rightarrow> error + (loc \<Rightarrow> real)) \<Rightarrow> update_draws \<Rightarrow> agent \<Rightarrow> environment \<Rightarrow> agent list
     \<Rightarrow> error + agent" where
  "agent_update kde dr a landscape population =
     (if alive a then
        (case agent_move kde dr a population of
           Inl e \<Rightarrow> Inl e
         | Inr l \<Rightarrow>
             (let a1 = a\<lparr>location := l\<rparr>
              in if \<not> infected a1 \<and> \<not> protected a1 then exposure dr a1 landscape
                 else if infected a1 then progress dr a1
                 else Inr a1))
      else Inr a)"

text \<open>
  A sequence of \<open>update\<close> calls on one agent, as the driver loop of simulate.py makes
  them: one call per tick, each with its own draws, landscape and population.
\<close>

fun agent_updates ::
  "(loc list \<Rightarrow> error + (loc \<Rightarrow> real)) \<Rightarrow> (update_draws \<times> environment \<times> agent list) list \<Rightarrow> agent
     \<Rightarrow> error + agent" where
  "agent_updates kde [] a = Inr a"
| "agent_updates kde ((dr, landscape, population) # ticks) a =
     (case agent_update kde dr a landscape population of
        Inl e \<Rightarrow> Inl e
      | Inr a' \<Rightarrow> agent_updates kde ticks a')"

section \<open>environment\<close>

definition environment_init :: "nat \<Rightarrow> real \<Rightarrow> int \<Rightarrow> environment" where
  "environment_init g att aoe =
     \<lparr>envGranularity = g, attenuation = att, AOE = aoe, scale = 10 ^ g, viralMap = (\<lambda>c. 0)\<rparr>"

text \<open>The test \<open>0 <= ii <= self.scale and 0 <= jj <= self.scale\<close>.\<close>

definition on_grid :: "environment \<Rightarrow> cell \<Rightarrow> bool" where
  "on_grid env c = (0 \<le> fst c \<and> fst c \<le> scale env \<and> 0 \<le> snd c \<and> snd c \<le> scale env)"

text \<open>
  The two assignments to \<open>viralMap[ii, jj]\<close> for the agent \<open>p\<close> standing on cell \<open>c\<close>:
  the new load of cell \<open>cc\<close> from its load \<open>v\<close>.
\<close>

definition cell_load :: "environment \<Rightarrow> agent \<Rightarrow> cell \<Rightarrow> cell \<Rightarrow> real \<Rightarrow> real" where
  "cell_load env p c cc v =
     (let d = \<bar>fst cc - fst c\<bar> + \<bar>snd cc - snd c\<bar>;
          w = float_pow (attenuation env) (real_of_int d / 2);
          v1 = min (v + (if infected p then 1 else 0) * w) 1
      in max (v1 - cleanlinessBias p * w) 0)"

text \<open>The body of the loop over the block, for one pair \<open>(ii, jj)\<close>.\<close>

definition deposit_cell ::
  "environment \<Rightarrow> agent \<Rightarrow> cell \<Rightarrow> (cell \<Rightarrow> real) \<Rightarrow> cell \<Rightarrow> (cell \<Rightarrow> real)" where
  "deposit_cell env p c m cc =
     (if on_grid env cc then m(cc := cell_load env p c cc (m cc)) else m)"

text \<open>\<open>product(range(i-self.AOE, i+self.AOE+1), range(j-self.AOE, j+self.AOE+1))\<close>.\<close>

definition block :: "environment \<Rightarrow> cell \<Rightarrow> cell list" where
  "block env c =
     List.product [fst c - AOE env .. fst c + AOE env] [snd c - AOE env .. snd c + AOE env]"

text \<open>The test \<open>p.alive and (p.infected or p.cleanlinessBias)\<close>.\<close>

definition contributes :: "agent \<Rightarrow> bool" where
  "contributes p = (alive p \<and> (infected p \<or> cleanlinessBias p \<noteq> 0))"

text \<open>The body of the loop over the population, for one agent.\<close>

definition deposit_agent :: "environment \<Rightarrow> (cell \<Rightarrow> real) \<Rightarrow> agent \<Rightarrow> (cell \<Rightarrow> real)" where
  "deposit_agent env m p =
     (if contributes p
      then foldl (deposit_cell env p (agent_cell env p)) m (block env (agent_cell env p))
      else m)"

definition environment_update :: "environment \<Rightarrow> agent list \<Rightarrow> environment" where
  "environment_update env population =
     env\<lparr>viralMap :=
           (\<lambda>c. foldl (deposit_agent env) (viralMap env) population c * attenuation env)\<rparr>"

section \<open>Predicates and sample data of the properties\<close>

text \<open>The square block around cell \<open>c\<close>: both index offsets are at most \<open>AOE\<close>.\<close>

definition in_block :: "environment \<Rightarrow> cell \<Rightarrow> cell \<Rightarrow> bool" where
  "in_block env c cc = (\<bar>fst cc - fst c\<bar> \<le> AOE env \<and> \<bar>snd cc - snd c\<bar> \<le> AOE env)"

definition taxicab :: "cell \<Rightarrow> cell \<Rightarrow> int" where
  "taxicab c cc = \<bar>fst cc - fst c\<bar> + \<bar>snd cc - snd c\<bar>"

text \<open>A living infected agent with \<open>cleanlinessBias = 0\<close> standing on cell \<open>(0, 0)\<close>.\<close>

definition patient :: agent where
  "patient =
     \<lparr>ageBias = - 1, cleanlinessBias = 0, socialDistanceBias = 0, travelerBias = 1,
      travelerBiasO = 1, locationGranularity = 2, initialLocationBias = None, age = 30,
      location = (0, 0), preexistingCondition = False, infected = True, symptomatic = False,
      alive = True, protected = False, infectionTime = 14, infectionTimer = 14,
      asymptomaticTime = 5, asymptomaticTimer = 5\<rparr>"

text \<open>The default grid with \<open>attenuation = 0.5\<close> and \<open>AOE = 1\<close>, freshly constructed.\<close>

definition quiet_env :: environment where
  "quiet_env = environment_init 2 (1 / 2) 1"

text \<open>A living, uninfected agent whose \<open>cleanlinessBias\<close> is below the documented range.\<close>

definition fouler :: agent where
  "fouler = patient\<lparr>cleanlinessBias := - 4, infected := False\<rparr>"

text \<open>A \<open>gaussian_kde\<close> that raises, as scipy does on too few points.\<close>

definition no_kde :: "loc list \<Rightarrow> error + (loc \<Rightarrow> real)" where
  "no_kde ls = Inl ValueError"

text \<open>
  Draws of one \<open>update\<close> call: no social distancing, a zero perturbation, and the
  uniform draw \<open>0.0\<close> for the infection or death check.
\<close>

definition still_draws :: update_draws where
  "still_draws = \<lparr>moveDraw = 1 / 2, normals = [(0, 0)], stateDraw = 0\<rparr>"

text \<open>The default grid with the maximal load 1 on every cell.\<close>

definition hot_env :: environment where
  "hot_env = quiet_env\<lparr>viralMap := (\<lambda>c. 1)\<rparr>"

text \<open>Agents in the middle of the domain, one for each state of the state machine.\<close>

definition corpse :: agent where
  "corpse = patient\<lparr>location := (1 / 2, 1 / 2), alive := False\<rparr>"

definition survivor :: agent where
  "survivor = patient\<lparr>location := (1 / 2, 1 / 2), infected := False, protected := True\<rparr>"

definition sick :: agent where
  "sick = patient\<lparr>location := (1 / 2, 1 / 2), asymptomaticTimer := 0\<rparr>"

definition convalescent :: agent where
  "convalescent = sick\<lparr>travelerBias := 1 / 2, infectionTimer := 1\<rparr>"

definition sick_traveler :: agent where
  "sick_traveler = sick\<lparr>travelerBias := 2, travelerBiasO := 2\<rparr>"

text \<open>Draws that push the first coordinate by two standard deviations.\<close>

definition nudge_draws :: update_draws where
  "nudge_draws = \<lparr>moveDraw = 1 / 2, normals = [(2, 0)], stateDraw = 0\<rparr>"

text \<open>\<open>sick_traveler\<close> after one tick of the symptomatic phase.\<close>

definition sick_traveler_next :: agent where
  "sick_traveler_next = sick_traveler\<lparr>travelerBias := 1 / 2, infectionTimer := 13\<rparr>"

text \<open>In the symptomatic phase with the travel energy 0.5, or recovered.\<close>

definition slowed :: "agent \<Rightarrow> bool" where
  "slowed a = ((infected a \<longrightarrow> asymptomaticTimer a \<le> 0 \<and> travelerBias a = 1 / 2) \<and>
               (\<not> infected a \<longrightarrow> protected a))"

text \<open>
  Draws of one construction with the world age distribution: age group 6 with offset 0
  (age 30), a uniform location in the middle and an asymptomatic duration of half a day.
\<close>

definition newborn_draws :: init_draws where
  "newborn_draws =
     \<lparr>ageGroup = 6, ageOffset = 0, ageNormals = [], locNormal = (0, 0),
      locUniform = (1 / 2, 1 / 2), pecDraw = 1 / 2, elderlyDraw = 1 / 2, gammaDraw = 1 / 2\<rparr>"

text \<open>The asymptomatic timer above \<open>-1\<close>, for a sampled duration that is not negative.\<close>

definition timer_ok :: "agent \<Rightarrow> bool" where
  "timer_ok a = (- 1 < asymptomaticTimer a \<and> 0 \<le> asymptomaticTime a)"

text \<open>A position in \<open>[0, 1]\<^sup>2\<close>.\<close>

definition in_unit_square :: "loc \<Rightarrow> bool" where
  "in_unit_square l = (0 \<le> fst l \<and> fst l \<le> 1 \<and> 0 \<le> snd l \<and> snd l \<le> 1)"

text \<open>The boundary invariant of an agent: age in \<open>[0, 104]\<close>, position in the unit square.\<close>

definition well_placed :: "agent \<Rightarrow> bool" where
  "well_placed a = (0 \<le> age a \<and> age a \<le> 104 \<and> in_unit_square (location a))"

text \<open>What \<open>np.random.rand()\<close> and \<open>np.random.random\<close> return: a float in \<open>[0, 1)\<close>.\<close>

definition unit_draw :: "real \<Rightarrow> bool" where
  "unit_draw u = (0 \<le> u \<and> u < 1)"

section \<open>Lemmas on the environment\<close>

lemma float_pow_nonneg: "0 \<le> a \<Longrightarrow> 0 \<le> float_pow a x"
  by (simp add: float_pow_def)

lemma float_pow_le_one: "0 \<le> a \<Longrightarrow> a \<le> 1 \<Longrightarrow> 0 \<le> x \<Longrightarrow> float_pow a x \<le> 1"
  by (simp add: float_pow_def powr_le1)

lemma foldl_deposit_cell:
  "distinct xs \<Longrightarrow>
   foldl (deposit_cell env p c) m xs cc =
     (if cc \<in> set xs \<and> on_grid env cc then cell_load env p c cc (m cc) else m cc)"
proof (induction xs arbitrary: m)
  case Nil
  show ?case by simp
next
  case (Cons x xs)
  then show ?case by (auto simp: deposit_cell_def)
qed

lemma set_block: "cc \<in> set (block env c) \<longleftrightarrow> in_block env c cc"
  by (cases cc) (auto simp: block_def in_block_def)

lemma distinct_block: "distinct (block env c)"
  by (simp add: block_def distinct_product)

lemma deposit_agent_apply:
  "deposit_agent env m p cc =
     (if contributes p \<and> in_block env (agent_cell env p) cc \<and> on_grid env cc
      then cell_load env p (agent_cell env p) cc (m cc) else m cc)"
  by (simp add: deposit_agent_def foldl_deposit_cell distinct_block set_block)

lemma foldl_deposit_agent_outside:
  "\<forall>p \<in> set population. contributes p \<longrightarrow> \<not> in_block env (agent_cell env p) cc \<Longrightarrow>
   foldl (deposit_agent env) m population cc = m cc"
  by (induction population arbitrary: m) (auto simp: deposit_agent_apply)

lemma half_powr_half_le_one: "(1 / 2 :: real) powr (1 / 2) \<le> 1"
  by (rule powr_le1) simp_all

lemma one_le_scale: "(1::int) \<le> 10 ^ g"
  by (rule one_le_power) simp

section \<open>C1: the cells environment.update deposits on\<close>

text \<open>
  C1, as stated, fails: the loop of \<open>environment.update\<close> runs over the whole square
  \<open>product(range(i-AOE, i+AOE+1), range(j-AOE, j+AOE+1))\<close> and never compares the
  taxicab distance \<open>d\<close> with \<open>AOE\<close>. With \<open>attenuation = 0.5\<close>, \<open>AOE = 1\<close> and one
  living infected agent on cell \<open>(0, 0)\<close> of a zero field, cell \<open>(1, 1)\<close>, at taxicab
  distance 2, ends at \<open>0.5 ** 1 * 0.5 = 0.25\<close>, not at 0.
\<close>

theorem update_block_counterexample:
  "AOE quiet_env < taxicab (agent_cell quiet_env patient) (1, 1) \<and>
   viralMap quiet_env (1, 1) = 0 \<and>
   viralMap (environment_update quiet_env [patient]) (1, 1) = 1 / 4"
  by (simp add: quiet_env_def environment_update_def environment_init_def deposit_agent_apply
      contributes_def patient_def in_block_def agent_cell_def py_int_def cell_load_def
      on_grid_def float_pow_def taxicab_def)

text \<open>
  C1, amended: apart from the attenuation of the whole field, \<open>environment.update\<close>
  changes only cells of the square block of a contributing agent (row offset and column
  offset both at most \<open>AOE\<close>): every cell outside the blocks of all contributing agents
  ends at its old load times \<open>attenuation\<close>. For an environment with
  \<open>attenuation = 0.5\<close> and \<open>AOE = 1\<close> over a zero field and one living infected agent
  with \<open>cleanlinessBias = 0\<close> on cell \<open>(0, 0)\<close>, one update leaves cell \<open>(0, 0)\<close> at
  \<open>0.5\<close>, cells \<open>(1, 0)\<close> and \<open>(0, 1)\<close> at \<open>0.5 ** 0.5 * 0.5\<close>, and cell \<open>(1, 1)\<close> at
  \<open>0.25\<close>.
\<close>

theorem update_block:
  "(\<forall>cc. (\<forall>p \<in> set population. contributes p \<longrightarrow> \<not> in_block env (agent_cell env p) cc) \<longrightarrow>
         viralMap (environment_update env population) cc = viralMap env cc * attenuation env) \<and>
   (\<forall>p. alive p \<and> infected p \<and> cleanlinessBias p = 0 \<and>
        agent_cell (environment_init g (1 / 2) 1) p = (0, 0) \<longrightarrow>
        viralMap (environment_update (environment_init g (1 / 2) 1) [p]) (0, 0) = 1 / 2 \<and>
        viralMap (environment_update (environment_init g (1 / 2) 1) [p]) (1, 0)
          = (1 / 2) powr (1 / 2) * (1 / 2) \<and>
        viralMap (environment_update (environment_init g (1 / 2) 1) [p]) (0, 1)
          = (1 / 2) powr (1 / 2) * (1 / 2) \<and>
        viralMap (environment_update (environment_init g (1 / 2) 1) [p]) (1, 1) = 1 / 4)"
proof (intro conjI allI impI)
  fix cc
  assume "\<forall>p \<in> set population. contributes p \<longrightarrow> \<not> in_block env (agent_cell env p) cc"
  then show "viralMap (environment_update env population) cc = viralMap env cc * attenuation env"
    by (simp add: environment_update_def foldl_deposit_agent_outside)
next
  fix p
  assume p: "alive p \<and> infected p \<and> cleanlinessBias p = 0 \<and>
    agent_cell (environment_init g (1 / 2) 1) p = (0, 0)"
  have c: "contributes p" using p by (simp add: contributes_def)
  note defs = environment_update_def deposit_agent_apply c in_block_def cell_load_def on_grid_def
    float_pow_def environment_init_def
  show "viralMap (environment_update (environment_init g (1 / 2) 1) [p]) (0, 0) = 1 / 2"
    using p by (simp add: defs)
  show "viralMap (environment_update (environment_init g (1 / 2) 1) [p]) (1, 0)
          = (1 / 2) powr (1 / 2) * (1 / 2)"
    using p half_powr_half_le_one one_le_scale[of g] by (simp add: defs)
  show "viralMap (environment_update (environment_init g (1 / 2) 1) [p]) (0, 1)
          = (1 / 2) powr (1 / 2) * (1 / 2)"
    using p half_powr_half_le_one one_le_scale[of g] by (simp add: defs)
  show "viralMap (environment_update (environment_init g (1 / 2) 1) [p]) (1, 1) = 1 / 4"
    using p one_le_scale[of g] by (simp add: defs)
qed

theorem update_block_witness:
  "viralMap (environment_update quiet_env [patient]) (3, 3)
     = viralMap quiet_env (3, 3) * attenuation quiet_env \<and>
   viralMap (environment_update (environment_init 2 (1 / 2) 1) [patient]) (0, 0) = 1 / 2 \<and>
   viralMap (environment_update (environment_init 2 (1 / 2) 1) [patient]) (1, 0)
     = (1 / 2) powr (1 / 2) * (1 / 2) \<and>
   viralMap (environment_update (environment_init 2 (1 / 2) 1) [patient]) (0, 1)
     = (1 / 2) powr (1 / 2) * (1 / 2) \<and>
   viralMap (environment_update (environment_init 2 (1 / 2) 1) [patient]) (1, 1) = 1 / 4"
proof -
  have far: "\<forall>p \<in> set [patient]. contributes p \<longrightarrow>
      \<not> in_block quiet_env (agent_cell quiet_env p) (3, 3)"
    by (simp add: quiet_env_def environment_init_def in_block_def agent_cell_def patient_def
        py_int_def)
  have at: "alive patient \<and> infected patient \<and> cleanlinessBias patient = 0 \<and>
        agent_cell (environment_init 2 (1 / 2) 1) patient = (0, 0)"
    by (simp add: environment_init_def agent_cell_def patient_def py_int_def)
  from update_block[of "[patient]" quiet_env 2] far at show ?thesis
    by blast
qed

lemma cell_load_bounds:
  "0 \<le> attenuation env \<Longrightarrow> 0 \<le> cleanlinessBias p \<Longrightarrow>
   0 \<le> cell_load env p c cc v \<and> cell_load env p c cc v \<le> 1"
proof -
  assume a: "0 \<le> attenuation env" and b: "0 \<le> cleanlinessBias p"
  define w where "w = float_pow (attenuation env) (real_of_int (\<bar>fst cc - fst c\<bar> + \<bar>snd cc - snd c\<bar>) / 2)"
  have "0 \<le> w" unfolding w_def using a by (rule float_pow_nonneg)
  then have "0 \<le> cleanlinessBias p * w" using b by simp
  then show ?thesis
    unfolding cell_load_def Let_def w_def[symmetric] by (simp add: max_def min_def)
qed

lemma foldl_deposit_agent_bounds:
  "0 \<le> attenuation env \<Longrightarrow> \<forall>p \<in> set population. 0 \<le> cleanlinessBias p \<Longrightarrow>
   0 \<le> m c \<and> m c \<le> 1 \<Longrightarrow>
   0 \<le> foldl (deposit_agent env) m population c \<and> foldl (deposit_agent env) m population c \<le> 1"
proof (induction population arbitrary: m)
  case Nil
  then show ?case by simp
next
  case (Cons p ps)
  have "0 \<le> deposit_agent env m p c \<and> deposit_agent env m p c \<le> 1"
    using Cons.prems cell_load_bounds[of env p] by (simp add: deposit_agent_apply)
  with Cons.IH[of "deposit_agent env m p"] Cons.prems show ?case by simp
qed

lemma environment_update_bounds:
  assumes "0 \<le> attenuation env" "attenuation env \<le> 1"
    and "\<forall>p \<in> set population. 0 \<le> cleanlinessBias p"
    and "0 \<le> viralMap env c \<and> viralMap env c \<le> 1"
  shows "0 \<le> viralMap (environment_update env population) c \<and>
         viralMap (environment_update env population) c \<le> 1"
proof -
  let ?v = "foldl (deposit_agent env) (viralMap env) population c"
  have v: "0 \<le> ?v \<and> ?v \<le> 1"
    using assms by (intro foldl_deposit_agent_bounds) simp_all
  have "?v * attenuation env \<le> 1 * 1"
    using v assms(1,2) by (intro mult_mono) simp_all
  with v assms(1) show ?thesis by (simp add: environment_update_def)
qed

lemma environment_update_frame:
  "attenuation (environment_update env population) = attenuation env \<and>
   scale (environment_update env population) = scale env \<and>
   AOE (environment_update env population) = AOE env"
  by (simp add: environment_update_def)

lemma environment_run_bounds:
  "0 \<le> attenuation env \<Longrightarrow> attenuation env \<le> 1 \<Longrightarrow>
   \<forall>population \<in> set ticks. \<forall>p \<in> set population. 0 \<le> cleanlinessBias p \<Longrightarrow>
   0 \<le> viralMap env c \<and> viralMap env c \<le> 1 \<Longrightarrow>
   0 \<le> viralMap (foldl environment_update env ticks) c \<and>
   viralMap (foldl environment_update env ticks) c \<le> 1"
proof (induction ticks arbitrary: env)
  case Nil
  then show ?case by simp
next
  case (Cons population ticks)
  have "0 \<le> viralMap (environment_update env population) c \<and>
        viralMap (environment_update env population) c \<le> 1"
    using Cons.prems by (intro environment_update_bounds) simp_all
  with Cons.IH[of "environment_update env population"] Cons.prems show ?case
    by (simp add: environment_update_frame)
qed

section \<open>C4: the loads stay in the unit interval\<close>

text \<open>
  C4, as stated, fails: \<open>agent.__init__\<close> stores any \<open>cleanlinessBias\<close> it is given,
  and \<open>environment.update\<close> clamps the cleaning step from below only. A living agent
  with \<open>cleanlinessBias = -4\<close> on cell \<open>(0, 0)\<close> of the fresh field with
  \<open>attenuation = 0.5\<close> leaves that cell at \<open>max(0 + 4, 0) * 0.5 = 2\<close>.
\<close>

theorem viralMap_interval_counterexample:
  "0 < attenuation quiet_env \<and> attenuation quiet_env < 1 \<and> viralMap quiet_env (0, 0) = 0 \<and>
   on_grid quiet_env (0, 0) \<and> viralMap (environment_update quiet_env [fouler]) (0, 0) = 2"
  by (simp add: quiet_env_def environment_update_def environment_init_def deposit_agent_apply
      contributes_def patient_def fouler_def in_block_def agent_cell_def py_int_def cell_load_def
      on_grid_def float_pow_def)

text \<open>
  C4, amended: for every environment whose attenuation lies in \<open>(0, 1)\<close> and whose
  cells all lie in \<open>[0, 1]\<close>, and for every population of agents whose
  \<open>cleanlinessBias\<close> is not negative (its documented range is \<open>[0, 1]\<close>), every cell
  lies in \<open>[0, 1]\<close> after \<open>environment.update\<close>; the freshly constructed environment
  has all cells 0, so the loads stay in \<open>[0, 1]\<close> after every update of every run with
  such populations.
\<close>

theorem viralMap_interval:
  "(0 < attenuation env \<and> attenuation env < 1 \<and>
    (\<forall>c. on_grid env c \<longrightarrow> 0 \<le> viralMap env c \<and> viralMap env c \<le> 1) \<and>
    (\<forall>p \<in> set population. 0 \<le> cleanlinessBias p) \<longrightarrow>
    (\<forall>c. on_grid env c \<longrightarrow>
         0 \<le> viralMap (environment_update env population) c \<and>
         viralMap (environment_update env population) c \<le> 1)) \<and>
   (\<forall>c. viralMap (environment_init g att aoe) c = 0) \<and>
   (0 < att \<and> att < 1 \<and>
    (\<forall>population \<in> set ticks. \<forall>p \<in> set population. 0 \<le> cleanlinessBias p) \<longrightarrow>
    (\<forall>c. 0 \<le> viralMap (foldl environment_update (environment_init g att aoe) ticks) c \<and>
         viralMap (foldl environment_update (environment_init g att aoe) ticks) c \<le> 1))"
proof (intro conjI impI allI)
  fix c
  assume h: "0 < attenuation env \<and> attenuation env < 1 \<and>
    (\<forall>c. on_grid env c \<longrightarrow> 0 \<le> viralMap env c \<and> viralMap env c \<le> 1) \<and>
    (\<forall>p \<in> set population. 0 \<le> cleanlinessBias p)"
    and g: "on_grid env c"
  have b: "0 \<le> viralMap (environment_update env population) c \<and>
        viralMap (environment_update env population) c \<le> 1"
  proof (rule environment_update_bounds)
    show "0 \<le> attenuation env" using h by simp
    show "attenuation env \<le> 1" using h by simp
    show "\<forall>p \<in> set population. 0 \<le> cleanlinessBias p" using h by simp
    show "0 \<le> viralMap env c \<and> viralMap env c \<le> 1" using h g by blast
  qed
  from b show "0 \<le> viralMap (environment_update env population) c" ..
  from b show "viralMap (environment_update env population) c \<le> 1" ..
next
  fix c
  show "viralMap (environment_init g att aoe) c = 0"
    by (simp add: environment_init_def)
next
  fix c
  assume h: "0 < att \<and> att < 1 \<and>
    (\<forall>population \<in> set ticks. \<forall>p \<in> set population. 0 \<le> cleanlinessBias p)"
  have b: "0 \<le> viralMap (foldl environment_update (environment_init g att aoe) ticks) c \<and>
         viralMap (foldl environment_update (environment_init g att aoe) ticks) c \<le> 1"
    using h by (intro environment_run_bounds) (simp_all add: environment_init_def)
  from b show "0 \<le> viralMap (foldl environment_update (environment_init g att aoe) ticks) c" ..
  from b show "viralMap (foldl environment_update (environment_init g att aoe) ticks) c \<le> 1" ..
qed

theorem viralMap_interval_witness:
  "0 \<le> viralMap (environment_update quiet_env [patient]) (0, 0) \<and>
   viralMap (environment_update quiet_env [patient]) (0, 0) \<le> 1 \<and>
   0 \<le> viralMap (foldl environment_update (environment_init 2 (1 / 2) 1) [[patient], [patient]]) (1, 0) \<and>
   viralMap (foldl environment_update (environment_init 2 (1 / 2) 1) [[patient], [patient]]) (1, 0) \<le> 1"
proof -
  have e: "0 < attenuation quiet_env \<and> attenuation quiet_env < 1 \<and>
      (\<forall>c. on_grid quiet_env c \<longrightarrow> 0 \<le> viralMap quiet_env c \<and> viralMap quiet_env c \<le> 1) \<and>
      (\<forall>p \<in> set [patient]. 0 \<le> cleanlinessBias p)"
    by (simp add: quiet_env_def environment_init_def patient_def)
  have g: "on_grid quiet_env (0, 0)"
    by (simp add: quiet_env_def environment_init_def on_grid_def)
  have r: "0 < (1 / 2 :: real) \<and> (1 / 2 :: real) < 1 \<and>
      (\<forall>population \<in> set [[patient], [patient]]. \<forall>p \<in> set population. 0 \<le> cleanlinessBias p)"
    by (simp add: patient_def)
  from viralMap_interval[of quiet_env "[patient]" 2 "1 / 2" 1 "[[patient], [patient]]"] e g r
  show ?thesis by blast
qed

section \<open>Lemmas on agent.update\<close>

lemma sample_location_inside:
  "sample_location a zs = Inr (l, zs') \<Longrightarrow> inside l"
  by (induction zs) (auto split: if_splits)

lemma gather_inside:
  "gather n a zs = Inr ls \<Longrightarrow> length ls = n \<and> (\<forall>l \<in> set ls. inside l)"
proof (induction n arbitrary: zs ls)
  case 0
  then show ?case by simp
next
  case (Suc n)
  then show ?case
    by (auto split: if_splits sum.splits prod.splits dest: sample_location_inside)
qed

lemma takeWhile_stops: "\<exists>x \<in> set xs. \<not> P x \<Longrightarrow> length (takeWhile P xs) < length xs"
  by (induction xs) auto

lemma argmin_less: "xs \<noteq> [] \<Longrightarrow> argmin xs < length xs"
proof -
  assume "xs \<noteq> []"
  then have "Min (set xs) \<in> set xs" by (intro Min_in) simp_all
  then have "\<exists>x \<in> set xs. \<not> Min (set xs) < x" by auto
  then show ?thesis unfolding argmin_def by (rule takeWhile_stops)
qed

lemma agent_move_inside:
  assumes "agent_move kde dr a population = Inr l"
  shows "inside l"
proof (cases "socialDistanceBias a < moveDraw dr")
  case True
  with assms obtain ls where g: "gather 1 a (normals dr) = Inr ls" and l: "l = ls ! 0"
    by (cases "gather 1 a (normals dr)") (simp_all add: agent_move_def del: gather.simps)
  from gather_inside[OF g] have "length ls = 1" "\<forall>l \<in> set ls. inside l" by simp_all
  then show ?thesis using l by (cases ls) simp_all
next
  case False
  with assms obtain density where d: "kde (closestFriends a population) = Inr density"
    by (cases "kde (closestFriends a population)") (simp_all add: agent_move_def del: gather.simps)
  with assms False obtain ls where g: "gather 10 a (normals dr) = Inr ls"
    and l: "l = ls ! argmin (map density ls)"
    by (cases "gather 10 a (normals dr)") (simp_all add: agent_move_def del: gather.simps)
  from gather_inside[OF g] have n: "length ls = 10" and i: "\<forall>l \<in> set ls. inside l" by simp_all
  from n have "map density ls \<noteq> []" by auto
  then have "argmin (map density ls) < length (map density ls)" by (rule argmin_less)
  then have "argmin (map density ls) < length ls" by simp
  then have "l \<in> set ls" using l by simp
  with i show ?thesis by simp
qed

lemma agent_update_dead:
  "\<not> alive a \<Longrightarrow> agent_update kde dr a landscape population = Inr a"
  by (simp add: agent_update_def)

lemma agent_update_alive:
  "alive a \<Longrightarrow> agent_move kde dr a population = Inr l \<Longrightarrow>
   agent_update kde dr a landscape population =
     (if \<not> infected a \<and> \<not> protected a then exposure dr (a\<lparr>location := l\<rparr>) landscape
      else if infected a then progress dr (a\<lparr>location := l\<rparr>)
      else Inr (a\<lparr>location := l\<rparr>))"
  by (simp add: agent_update_def Let_def)

lemma agent_update_moved:
  "alive a \<Longrightarrow> agent_update kde dr a landscape population = Inr a' \<Longrightarrow>
   \<exists>l. agent_move kde dr a population = Inr l"
  by (cases "agent_move kde dr a population") (simp_all add: agent_update_def)

lemma survival_threshold_frame:
  "survival_threshold (a\<lparr>location := l, travelerBias := b, infectionTimer := t\<rparr>)
     = survival_threshold a"
  by (simp add: survival_threshold_def ageFactor_def deathFactor_def)

lemma progress_incubating:
  "0 < asymptomaticTimer a \<Longrightarrow>
   progress dr (a\<lparr>location := l\<rparr>)
     = Inr (a\<lparr>location := l, asymptomaticTimer := asymptomaticTimer a - 1\<rparr>)"
  by (simp add: progress_def)

lemma progress_recovered:
  "\<not> 0 < asymptomaticTimer a \<Longrightarrow> infectionTimer a = 1 \<Longrightarrow>
   progress dr (a\<lparr>location := l\<rparr>)
     = Inr (a\<lparr>location := l, travelerBias := travelerBiasO a, infected := False,
              protected := True, infectionTimer := infectionTime a,
              asymptomaticTimer := asymptomaticTime a\<rparr>)"
  by (simp add: progress_def Let_def)

lemma progress_sick:
  "\<not> 0 < asymptomaticTimer a \<Longrightarrow> infectionTimer a \<noteq> 1 \<Longrightarrow>
   progress dr (a\<lparr>location := l\<rparr>)
     = (if infectionTime a = 0 then Inl ZeroDivisionError
        else Inr (a\<lparr>location := l, travelerBias := 1 / 2,
                    infectionTimer := infectionTimer a - 1,
                    alive := alive a \<and> stateDraw dr < survival_threshold a\<rparr>))"
  unfolding progress_def Let_def
  by (simp add: survival_threshold_frame not_le)

lemma exposure_cases:
  "exposure dr a landscape = Inr a' \<Longrightarrow> a' = a \<or> a' = a\<lparr>infected := True\<rparr>"
  by (auto simp: exposure_def split: sum.splits if_splits)

lemma agent_update_cases:
  assumes "agent_update kde dr a landscape population = Inr a'"
  obtains
    (dead) "\<not> alive a" "a' = a"
  | (exposed) l where "alive a" "agent_move kde dr a population = Inr l"
      "\<not> infected a" "\<not> protected a"
      "exposure dr (a\<lparr>location := l\<rparr>) landscape = Inr a'"
  | (incubating) l where "alive a" "agent_move kde dr a population = Inr l"
      "infected a" "0 < asymptomaticTimer a"
      "a' = a\<lparr>location := l, asymptomaticTimer := asymptomaticTimer a - 1\<rparr>"
  | (recovered) l where "alive a" "agent_move kde dr a population = Inr l"
      "infected a" "asymptomaticTimer a \<le> 0" "infectionTimer a = 1"
      "a' = a\<lparr>location := l, travelerBias := travelerBiasO a, infected := False,
              protected := True, infectionTimer := infectionTime a,
              asymptomaticTimer := asymptomaticTime a\<rparr>"
  | (sick) l where "alive a" "agent_move kde dr a population = Inr l"
      "infected a" "asymptomaticTimer a \<le> 0" "infectionTimer a \<noteq> 1" "infectionTime a \<noteq> 0"
      "a' = a\<lparr>location := l, travelerBias := 1 / 2, infectionTimer := infectionTimer a - 1,
              alive := alive a \<and> stateDraw dr < survival_threshold a\<rparr>"
  | (immune) l where "alive a" "agent_move kde dr a population = Inr l"
      "\<not> infected a" "protected a" "a' = a\<lparr>location := l\<rparr>"
proof (cases "alive a")
  case False
  with assms have "a' = a" by (simp add: agent_update_dead)
  with False show ?thesis by (rule dead)
next
  case True
  from agent_update_moved[OF True assms] obtain l
    where m: "agent_move kde dr a population = Inr l" ..
  note u = agent_update_alive[OF True m, of landscape]
  show ?thesis
  proof (cases "infected a")
    case inf: True
    with u assms have p: "progress dr (a\<lparr>location := l\<rparr>) = Inr a'" by simp
    show ?thesis
    proof (cases "0 < asymptomaticTimer a")
      case t: True
      from p have "a' = a\<lparr>location := l, asymptomaticTimer := asymptomaticTimer a - 1\<rparr>"
        by (simp add: progress_incubating[OF t])
      with True m inf t show ?thesis by (rule incubating)
    next
      case t: False
      then have t': "asymptomaticTimer a \<le> 0" by simp
      show ?thesis
      proof (cases "infectionTimer a = 1")
        case one: True
        from p have "a' = a\<lparr>location := l, travelerBias := travelerBiasO a, infected := False,
              protected := True, infectionTimer := infectionTime a,
              asymptomaticTimer := asymptomaticTime a\<rparr>"
          by (simp add: progress_recovered[OF t one])
        with True m inf t' one show ?thesis by (rule recovered)
      next
        case one: False
        note q = progress_sick[OF t one, of dr l]
        from p q have z: "infectionTime a \<noteq> 0" by (cases "infectionTime a = 0") simp_all
        from p q z have "a' = a\<lparr>location := l, travelerBias := 1 / 2,
              infectionTimer := infectionTimer a - 1,
              alive := alive a \<and> stateDraw dr < survival_threshold a\<rparr>"
          by simp
        with True m inf t' one z show ?thesis by (rule sick)
      qed
    qed
  next
    case inf: False
    show ?thesis
    proof (cases "protected a")
      case pr: True
      with u assms inf have "a' = a\<lparr>location := l\<rparr>" by simp
      with True m inf pr show ?thesis by (rule immune)
    next
      case pr: False
      with u assms inf have "exposure dr (a\<lparr>location := l\<rparr>) landscape = Inr a'" by simp
      with True m inf pr show ?thesis by (rule exposed)
    qed
  qed
qed

lemma np_round_half: "np_round 2 (1 / 2) = 1 / 2"
  by (simp add: np_round_def np_rint_def)

lemma still_move:
  "socialDistanceBias a < 1 / 2 \<Longrightarrow> locationGranularity a = 2 \<Longrightarrow>
   location a = (1 / 2, 1 / 2) \<Longrightarrow> 0 \<le> travelerBias a \<Longrightarrow>
   agent_move kde still_draws a population = Inr (1 / 2, 1 / 2)"
  by (simp add: agent_move_def still_draws_def perturb_def round_loc_def np_round_half inside_def)

lemma agent_update_protected:
  "protected a \<Longrightarrow> \<not> infected a \<Longrightarrow> agent_update kde dr a landscape population = Inr a' \<Longrightarrow>
   protected a' \<and> \<not> infected a'"
  by (erule agent_update_cases) simp_all

lemma agent_updates_protected:
  "protected a \<Longrightarrow> \<not> infected a \<Longrightarrow> agent_updates kde ticks a = Inr a' \<Longrightarrow>
   protected a' \<and> \<not> infected a'"
proof (induction ticks arbitrary: a)
  case Nil
  then show ?case by simp
next
  case (Cons tick ticks)
  obtain dr landscape population where t: "tick = (dr, landscape, population)"
    by (cases tick) auto
  from Cons.prems(3) t obtain a1 where u: "agent_update kde dr a landscape population = Inr a1"
    and r: "agent_updates kde ticks a1 = Inr a'"
    by (cases "agent_update kde dr a landscape population") simp_all
  from agent_update_protected[OF Cons.prems(1,2) u] have "protected a1" "\<not> infected a1"
    by simp_all
  then show ?case using r by (rule Cons.IH)
qed

section \<open>C6: a dead agent is not updated\<close>

text \<open>
  C6: for every agent with \<open>alive = false\<close>, \<open>agent.update\<close> returns the agent as it
  is, for any draws, environment and population: position, \<open>infected\<close> and \<open>protected\<close>
  flags, both timers and \<open>travelerBias\<close> (and every other attribute) are unchanged.
\<close>

theorem dead_agent_unchanged:
  "\<not> alive a \<Longrightarrow> agent_update kde dr a landscape population = Inr a"
  by (simp add: agent_update_def)

theorem dead_agent_unchanged_witness:
  "\<not> alive corpse \<and> agent_update no_kde still_draws corpse hot_env [corpse] = Inr corpse"
proof -
  have d: "\<not> alive corpse" by (simp add: corpse_def patient_def)
  from d dead_agent_unchanged[OF d] show ?thesis by simp
qed

section \<open>C5: a protected agent is never infected again\<close>

text \<open>
  C5: for every agent with \<open>protected = true\<close> and \<open>infected = false\<close>, a call of
  \<open>agent.update\<close> that returns, with any draws, environment and population, leaves
  \<open>infected\<close> false and \<open>protected\<close> true, and so does any sequence of calls, whatever
  the viral load of the agent's cell.
\<close>

theorem protected_never_infected:
  assumes "protected a" and "\<not> infected a"
  shows "(agent_update kde dr a landscape population = Inr a' \<longrightarrow> protected a' \<and> \<not> infected a') \<and>
         (agent_updates kde ticks a = Inr a'' \<longrightarrow> protected a'' \<and> \<not> infected a'')"
  using assms agent_update_protected agent_updates_protected by blast

lemma survivor_update:
  "agent_update no_kde still_draws survivor hot_env [survivor] = Inr survivor"
proof -
  have m: "agent_move no_kde still_draws survivor [survivor] = Inr (1 / 2, 1 / 2)"
    by (rule still_move) (simp_all add: survivor_def patient_def)
  have a: "alive survivor" by (simp add: survivor_def patient_def)
  show ?thesis
    by (simp add: agent_update_alive[OF a m]) (simp add: survivor_def patient_def)
qed

theorem protected_never_infected_witness:
  "protected survivor \<and> \<not> infected survivor \<and>
   viral_lookup hot_env (agent_cell hot_env survivor) = Inr 1 \<and>
   agent_update no_kde still_draws survivor hot_env [survivor] = Inr survivor \<and>
   agent_updates no_kde [(still_draws, hot_env, [survivor]), (still_draws, hot_env, [survivor])]
     survivor = Inr survivor"
proof -
  have p: "protected survivor" and i: "\<not> infected survivor"
    by (simp_all add: survivor_def patient_def)
  have v: "viral_lookup hot_env (agent_cell hot_env survivor) = Inr 1"
    by (simp add: viral_lookup_def hot_env_def quiet_env_def environment_init_def agent_cell_def
        survivor_def patient_def py_int_def np_index_def)
  have r: "agent_updates no_kde
      [(still_draws, hot_env, [survivor]), (still_draws, hot_env, [survivor])] survivor
      = Inr survivor"
    by (simp add: survivor_update)
  from protected_never_infected[OF p i, of no_kde still_draws hot_env "[survivor]" survivor
      "[(still_draws, hot_env, [survivor]), (still_draws, hot_env, [survivor])]" survivor]
    p i v r survivor_update
  show ?thesis by simp
qed

lemma agent_init_fields:
  "agent_init gamma_cdf dr ab cb sb tb g ilb = Inr a \<Longrightarrow>
   travelerBias a = tb \<and> travelerBiasO a = tb \<and> infectionTimer a = infectionTime a \<and>
   asymptomaticTimer a = asymptomaticTime a \<and> asymptomaticTime a = gammaDraw dr \<and>
   (infectionTime a = 14 \<or> infectionTime a = 28) \<and>
   \<not> infected a \<and> \<not> symptomatic a \<and> alive a \<and> \<not> protected a"
  by (cases "age_distribution dr ab") (auto simp: agent_init_def Let_def)

lemma exposure_frame:
  "exposure dr a landscape = Inr a' \<Longrightarrow>
   travelerBiasO a' = travelerBiasO a \<and> infectionTime a' = infectionTime a \<and>
   asymptomaticTime a' = asymptomaticTime a \<and> age a' = age a \<and> symptomatic a' = symptomatic a \<and>
   location a' = location a \<and> asymptomaticTimer a' = asymptomaticTimer a \<and>
   travelerBias a' = travelerBias a \<and> alive a' = alive a \<and> protected a' = protected a"
  by (drule exposure_cases) auto

lemma agent_update_frame:
  "agent_update kde dr a landscape population = Inr a' \<Longrightarrow>
   travelerBiasO a' = travelerBiasO a \<and> infectionTime a' = infectionTime a \<and>
   asymptomaticTime a' = asymptomaticTime a \<and> age a' = age a \<and> symptomatic a' = symptomatic a"
  by (erule agent_update_cases) (simp_all add: exposure_frame)

section \<open>C7: the recovery tick\<close>

text \<open>
  C7: for every living infected agent in the symptomatic phase (asymptomatic timer not
  positive) whose infection timer is 1 at the start of \<open>agent.update\<close>, the call (its
  movement step having returned) sets \<open>infected\<close> to false and \<open>protected\<close> to true,
  resets the infection timer to \<open>infectionTime\<close> and the asymptomatic timer to
  \<open>asymptomaticTime\<close>, restores \<open>travelerBias\<close> to \<open>travelerBiasO\<close>, and leaves the agent
  alive whatever the uniform draw is: no death check is made. \<open>infectionTime\<close>,
  \<open>asymptomaticTime\<close> and \<open>travelerBiasO\<close> are the values \<open>__init__\<close> stored
  (\<open>agent_init_fields\<close>) and no update changes them (\<open>agent_update_frame\<close>).
\<close>

theorem recovery_tick:
  assumes "alive a" and "infected a" and "asymptomaticTimer a \<le> 0" and "infectionTimer a = 1"
    and "agent_move kde dr a population = Inr l"
  shows "\<exists>a'. agent_update kde dr a landscape population = Inr a' \<and>
           \<not> infected a' \<and> protected a' \<and>
           infectionTimer a' = infectionTime a \<and> asymptomaticTimer a' = asymptomaticTime a \<and>
           travelerBias a' = travelerBiasO a \<and> alive a' \<and>
           infectionTime a' = infectionTime a \<and> asymptomaticTime a' = asymptomaticTime a \<and>
           travelerBiasO a' = travelerBiasO a"
proof -
  have t: "\<not> 0 < asymptomaticTimer a" using assms(3) by simp
  have "agent_update kde dr a landscape population = progress dr (a\<lparr>location := l\<rparr>)"
    using assms(2) by (simp add: agent_update_alive[OF assms(1,5)])
  then show ?thesis using assms(1) by (simp add: progress_recovered[OF t assms(4)])
qed

theorem recovery_tick_witness:
  "alive convalescent \<and> infected convalescent \<and> asymptomaticTimer convalescent \<le> 0 \<and>
   infectionTimer convalescent = 1 \<and> travelerBias convalescent = 1 / 2 \<and>
   (\<exists>a'. agent_update no_kde (still_draws\<lparr>stateDraw := 1\<rparr>) convalescent hot_env [convalescent] = Inr a' \<and>
         \<not> infected a' \<and> protected a' \<and> infectionTimer a' = 14 \<and> asymptomaticTimer a' = 5 \<and>
         travelerBias a' = 1 \<and> alive a')"
proof -
  have h: "alive convalescent" "infected convalescent" "asymptomaticTimer convalescent \<le> 0"
    "infectionTimer convalescent = 1"
    by (simp_all add: convalescent_def sick_def patient_def)
  have m: "agent_move no_kde (still_draws\<lparr>stateDraw := 1\<rparr>) convalescent [convalescent]
      = Inr (1 / 2, 1 / 2)"
    by (simp add: agent_move_def still_draws_def perturb_def round_loc_def np_round_half inside_def
        convalescent_def sick_def patient_def)
  have v: "infectionTime convalescent = 14" "asymptomaticTime convalescent = 5"
    "travelerBiasO convalescent = 1" "travelerBias convalescent = 1 / 2"
    by (simp_all add: convalescent_def sick_def patient_def)
  from recovery_tick[OF h m, of hot_env] h v show ?thesis by auto
qed

lemma ageFactor_range: "2 / 1000 \<le> ageFactor a \<and> ageFactor a \<le> 148 / 1000"
  by (simp add: ageFactor_def)

lemma deathFactor_range: "0 \<le> deathFactor a \<and> deathFactor a \<le> 105 / 1000"
  by (simp add: deathFactor_def)

lemma survival_base_range:
  "0 < 1 - max (ageFactor a) (deathFactor a) \<and> 1 - max (ageFactor a) (deathFactor a) < 1"
  using ageFactor_range[of a] deathFactor_range[of a] by (auto simp: max_def)

lemma survival_threshold_powr:
  "infectionTime a \<noteq> 0 \<Longrightarrow>
   survival_threshold a
     = (1 - max (ageFactor a) (deathFactor a)) powr (1 / real_of_int (infectionTime a))"
proof -
  assume z: "infectionTime a \<noteq> 0"
  have "max (ageFactor a) (deathFactor a) \<noteq> 1"
    using ageFactor_range[of a] deathFactor_range[of a] by (auto simp: max_def)
  then show ?thesis using z by (simp add: survival_threshold_def float_pow_def)
qed

lemma survival_threshold_range:
  assumes "0 < infectionTime a"
  shows "0 < survival_threshold a \<and> survival_threshold a \<le> 1"
proof -
  let ?b = "1 - max (ageFactor a) (deathFactor a)"
  let ?x = "1 / real_of_int (infectionTime a)"
  have e: "survival_threshold a = ?b powr ?x"
    using assms by (intro survival_threshold_powr) simp
  have b: "0 < ?b" "?b \<le> 1" using survival_base_range[of a] by simp_all
  have x: "0 \<le> ?x" using assms by simp
  have "0 < ?b powr ?x" unfolding powr_gt_zero using b(1) by linarith
  moreover have "?b powr ?x \<le> 1" using b x by (intro powr_le1) simp_all
  ultimately show ?thesis using e by simp
qed

section \<open>C2: the daily death check\<close>

text \<open>
  C2: for every living infected agent in the symptomatic phase whose infection timer
  does not reach 0 this tick (and whose movement step returns), \<open>agent.update\<close> sets
  \<open>alive\<close> to false exactly when the uniform draw is at least
  \<open>(1 - max_rate) ** (1 / infectionTime)\<close>; this threshold lies in \<open>(0, 1]\<close>, so a draw
  uniform on \<open>[0, 1)\<close> kills with probability \<open>1 - (1 - max_rate) ** (1 / infectionTime)\<close>.
  \<open>max_rate\<close> is the maximum of 0.105 for an agent with a pre-existing condition (0
  otherwise) and of the age rate, which is 0.002 for every age up to 39, 0.004 on
  \<open>[40, 49]\<close>, 0.013 on \<open>[50, 59]\<close>, 0.036 on \<open>[60, 69]\<close>, 0.08 on \<open>[70, 79]\<close> and 0.148
  from 80 on. \<open>infectionTime\<close> is 14 or 28 (\<open>agent_init_fields\<close>), hence positive.
\<close>

theorem death_check:
  assumes "alive a" and "infected a" and "asymptomaticTimer a \<le> 0" and "infectionTimer a \<noteq> 1"
    and "0 < infectionTime a" and "agent_move kde dr a population = Inr l"
  shows "(\<exists>a'. agent_update kde dr a landscape population = Inr a' \<and>
            (\<not> alive a' \<longleftrightarrow>
               (1 - max (deathFactor a) (ageFactor a)) powr (1 / real_of_int (infectionTime a))
                 \<le> stateDraw dr)) \<and>
         0 < (1 - max (deathFactor a) (ageFactor a)) powr (1 / real_of_int (infectionTime a)) \<and>
         (1 - max (deathFactor a) (ageFactor a)) powr (1 / real_of_int (infectionTime a)) \<le> 1 \<and>
         deathFactor a = (if preexistingCondition a then 105 / 1000 else 0) \<and>
         (age a \<le> 39 \<longrightarrow> ageFactor a = 2 / 1000) \<and>
         (40 \<le> age a \<and> age a \<le> 49 \<longrightarrow> ageFactor a = 4 / 1000) \<and>
         (50 \<le> age a \<and> age a \<le> 59 \<longrightarrow> ageFactor a = 13 / 1000) \<and>
         (60 \<le> age a \<and> age a \<le> 69 \<longrightarrow> ageFactor a = 36 / 1000) \<and>
         (70 \<le> age a \<and> age a \<le> 79 \<longrightarrow> ageFactor a = 8 / 100) \<and>
         (80 \<le> age a \<longrightarrow> ageFactor a = 148 / 1000)"
proof -
  have t: "\<not> 0 < asymptomaticTimer a" using assms(3) by simp
  have z: "infectionTime a \<noteq> 0" using assms(5) by simp
  have s: "survival_threshold a
      = (1 - max (deathFactor a) (ageFactor a)) powr (1 / real_of_int (infectionTime a))"
    using survival_threshold_powr[OF z] by (simp add: max.commute)
  have "agent_update kde dr a landscape population = progress dr (a\<lparr>location := l\<rparr>)"
    using assms(2) by (simp add: agent_update_alive[OF assms(1,6)])
  then have u: "agent_update kde dr a landscape population
      = Inr (a\<lparr>location := l, travelerBias := 1 / 2, infectionTimer := infectionTimer a - 1,
               alive := alive a \<and> stateDraw dr < survival_threshold a\<rparr>)"
    using z by (simp add: progress_sick[OF t assms(4)])
  have first: "\<exists>a'. agent_update kde dr a landscape population = Inr a' \<and>
            (\<not> alive a' \<longleftrightarrow>
               (1 - max (deathFactor a) (ageFactor a)) powr (1 / real_of_int (infectionTime a))
                 \<le> stateDraw dr)"
    using u assms(1) s by (simp add: not_less)
  have range: "0 < (1 - max (deathFactor a) (ageFactor a)) powr (1 / real_of_int (infectionTime a)) \<and>
         (1 - max (deathFactor a) (ageFactor a)) powr (1 / real_of_int (infectionTime a)) \<le> 1"
    using survival_threshold_range[OF assms(5)] s by simp
  have table: "deathFactor a = (if preexistingCondition a then 105 / 1000 else 0) \<and>
         (age a \<le> 39 \<longrightarrow> ageFactor a = 2 / 1000) \<and>
         (40 \<le> age a \<and> age a \<le> 49 \<longrightarrow> ageFactor a = 4 / 1000) \<and>
         (50 \<le> age a \<and> age a \<le> 59 \<longrightarrow> ageFactor a = 13 / 1000) \<and>
         (60 \<le> age a \<and> age a \<le> 69 \<longrightarrow> ageFactor a = 36 / 1000) \<and>
         (70 \<le> age a \<and> age a \<le> 79 \<longrightarrow> ageFactor a = 8 / 100) \<and>
         (80 \<le> age a \<longrightarrow> ageFactor a = 148 / 1000)"
    by (simp add: deathFactor_def ageFactor_def)
  from first range table show ?thesis by blast
qed

theorem death_check_witness:
  "alive sick \<and> infected sick \<and> asymptomaticTimer sick \<le> 0 \<and> infectionTimer sick \<noteq> 1 \<and>
   0 < infectionTime sick \<and>
   (\<exists>a'. agent_update no_kde (still_draws\<lparr>stateDraw := 1\<rparr>) sick hot_env [sick] = Inr a' \<and>
         \<not> alive a') \<and>
   deathFactor sick = 0 \<and> ageFactor sick = 2 / 1000"
proof -
  have h: "alive sick" "infected sick" "asymptomaticTimer sick \<le> 0" "infectionTimer sick \<noteq> 1"
    "0 < infectionTime sick"
    by (simp_all add: sick_def patient_def)
  have m: "agent_move no_kde (still_draws\<lparr>stateDraw := 1\<rparr>) sick [sick] = Inr (1 / 2, 1 / 2)"
    by (simp add: agent_move_def still_draws_def perturb_def round_loc_def np_round_half inside_def
        sick_def patient_def)
  have v: "age sick \<le> 39" "\<not> preexistingCondition sick" "stateDraw (still_draws\<lparr>stateDraw := 1\<rparr>) = 1"
    by (simp_all add: sick_def patient_def)
  from death_check[OF h m, of hot_env] h v show ?thesis by auto
qed

lemma agent_update_slowed:
  "slowed a \<Longrightarrow> agent_update kde dr a landscape population = Inr a' \<Longrightarrow> slowed a'"
  by (erule agent_update_cases) (auto simp: slowed_def)

lemma agent_updates_slowed:
  "slowed a \<Longrightarrow> agent_updates kde ticks a = Inr a' \<Longrightarrow> slowed a'"
proof (induction ticks arbitrary: a)
  case Nil
  then show ?case by simp
next
  case (Cons tick ticks)
  obtain dr landscape population where t: "tick = (dr, landscape, population)"
    by (cases tick) auto
  from Cons.prems(2) t obtain a1 where u: "agent_update kde dr a landscape population = Inr a1"
    and r: "agent_updates kde ticks a1 = Inr a'"
    by (cases "agent_update kde dr a landscape population") simp_all
  from agent_update_slowed[OF Cons.prems(1) u] have "slowed a1" .
  then show ?case using r by (rule Cons.IH)
qed

lemma agent_update_symptomatic:
  assumes "alive a" and "infected a" and "asymptomaticTimer a \<le> 0"
    and "agent_update kde dr a landscape population = Inr a'"
  shows "travelerBias a' = (if infectionTimer a = 1 then travelerBiasO a else 1 / 2) \<and>
         (infected a' \<longleftrightarrow> infectionTimer a \<noteq> 1) \<and> slowed a'"
  using assms(4,1,2,3) by (cases rule: agent_update_cases) (auto simp: slowed_def)

lemma agent_move_first:
  assumes "socialDistanceBias a < moveDraw dr" and "normals dr = z # zs"
    and "inside (perturb a z)" and "agent_move kde dr a population = Inr l"
  shows "l = perturb a z"
proof -
  have "gather (Suc 0) a (z # zs) = Inr [l]"
    using assms by (cases "gather (Suc 0) a (z # zs)")
      (auto simp: agent_move_def split: if_splits)
  then show ?thesis using assms(3) by (simp split: if_splits)
qed

lemma agent_update_location:
  "alive a \<Longrightarrow> agent_update kde dr a landscape population = Inr a' \<Longrightarrow>
   agent_move kde dr a population = Inr (location a')"
  by (erule agent_update_cases) (auto dest: exposure_frame)


lemma sick_traveler_update:
  "agent_update no_kde still_draws sick_traveler hot_env [sick_traveler] = Inr sick_traveler_next"
proof -
  have a: "alive sick_traveler" by (simp add: sick_traveler_def sick_def patient_def)
  have m: "agent_move no_kde still_draws sick_traveler [sick_traveler] = Inr (1 / 2, 1 / 2)"
    by (rule still_move) (simp_all add: sick_traveler_def sick_def patient_def)
  have t: "\<not> 0 < asymptomaticTimer sick_traveler" and o: "infectionTimer sick_traveler \<noteq> 1"
    and p: "0 < infectionTime sick_traveler"
    by (simp_all add: sick_traveler_def sick_def patient_def)
  have s: "stateDraw still_draws < survival_threshold sick_traveler"
    using survival_threshold_range[OF p] by (simp add: still_draws_def)
  have i: "infected sick_traveler \<and> infectionTime sick_traveler \<noteq> 0"
    by (simp add: sick_traveler_def sick_def patient_def)
  have "agent_update no_kde still_draws sick_traveler hot_env [sick_traveler]
      = Inr (sick_traveler\<lparr>location := (1 / 2, 1 / 2), travelerBias := 1 / 2,
               infectionTimer := infectionTimer sick_traveler - 1,
               alive := alive sick_traveler \<and> stateDraw still_draws < survival_threshold sick_traveler\<rparr>)"
    using i by (simp add: agent_update_alive[OF a m] progress_sick[OF t o])
  also have "\<dots> = Inr sick_traveler_next"
    using s by (simp add: sick_traveler_next_def sick_traveler_def sick_def patient_def)
  finally show ?thesis .
qed

lemma sick_traveler_nudged:
  "agent_update no_kde nudge_draws sick_traveler_next hot_env [sick_traveler_next]
     = Inr (sick_traveler_next\<lparr>location := (51 / 100, 1 / 2), infectionTimer := 12\<rparr>)"
proof -
  have a: "alive sick_traveler_next"
    by (simp add: sick_traveler_next_def sick_traveler_def sick_def patient_def)
  have r: "np_round 2 (51 / 100) = 51 / 100"
    by (simp add: np_round_def np_rint_def)
  have m: "agent_move no_kde nudge_draws sick_traveler_next [sick_traveler_next]
      = Inr (51 / 100, 1 / 2)"
    by (simp add: agent_move_def nudge_draws_def perturb_def round_loc_def np_round_half r
        inside_def sick_traveler_next_def sick_traveler_def sick_def patient_def)
  have t: "\<not> 0 < asymptomaticTimer sick_traveler_next"
    and o: "infectionTimer sick_traveler_next \<noteq> 1"
    and p: "0 < infectionTime sick_traveler_next"
    by (simp_all add: sick_traveler_next_def sick_traveler_def sick_def patient_def)
  have s: "stateDraw nudge_draws < survival_threshold sick_traveler_next"
    using survival_threshold_range[OF p] by (simp add: nudge_draws_def)
  have i: "infected sick_traveler_next \<and> infectionTime sick_traveler_next \<noteq> 0"
    by (simp add: sick_traveler_next_def sick_traveler_def sick_def patient_def)
  have "agent_update no_kde nudge_draws sick_traveler_next hot_env [sick_traveler_next]
      = Inr (sick_traveler_next\<lparr>location := (51 / 100, 1 / 2), travelerBias := 1 / 2,
               infectionTimer := infectionTimer sick_traveler_next - 1,
               alive := alive sick_traveler_next \<and>
                 stateDraw nudge_draws < survival_threshold sick_traveler_next\<rparr>)"
    using i by (simp add: agent_update_alive[OF a m] progress_sick[OF t o])
  also have "\<dots> = Inr (sick_traveler_next\<lparr>location := (51 / 100, 1 / 2), infectionTimer := 12\<rparr>)"
    using s by (simp add: sick_traveler_next_def sick_traveler_def sick_def patient_def)
  finally show ?thesis .
qed

section \<open>C3: the travel energy of the symptomatic phase\<close>

text \<open>
  C3, as stated, fails: the symptomatic branch assigns the constant
  \<open>self.travelerBias = .5\<close>, not half of the agent's own value. A living infected agent
  in the symptomatic phase that was constructed with \<open>travelerBias = 2\<close> has
  \<open>travelerBias = 0.5\<close> after the call, not \<open>1\<close>.
\<close>

theorem travel_energy_counterexample:
  "alive sick_traveler \<and> infected sick_traveler \<and> asymptomaticTimer sick_traveler \<le> 0 \<and>
   travelerBiasO sick_traveler / 2 = 1 \<and>
   agent_update no_kde still_draws sick_traveler hot_env [sick_traveler] = Inr sick_traveler_next \<and>
   travelerBias sick_traveler_next = 1 / 2"
  by (simp add: sick_traveler_update)
    (simp add: sick_traveler_next_def sick_traveler_def sick_def patient_def)

text \<open>
  C3, amended: for every living infected agent whose asymptomatic timer is not positive,
  a call of \<open>agent.update\<close> that returns leaves \<open>travelerBias\<close> at the constant 0.5 (half
  of the default travel energy 1), unless the agent recovers in that call (infection
  timer 1 at its start), where \<open>travelerBias\<close> is restored to \<open>travelerBiasO\<close>. The value
  0.5 persists: after any further sequence of calls the agent, if still infected, has
  \<open>travelerBias = 0.5\<close>; and it is the travel energy of the movement step of the next
  call, whose accepted candidate is the rounded
  \<open>location + 0.5 * 10 ** (-locationGranularity) * z\<close>.
\<close>

theorem travel_energy:
  assumes "alive a" and "infected a" and "asymptomaticTimer a \<le> 0"
    and "agent_update kde dr a landscape population = Inr a'"
  shows "travelerBias a' = (if infectionTimer a = 1 then travelerBiasO a else 1 / 2) \<and>
         (infected a' \<longleftrightarrow> infectionTimer a \<noteq> 1) \<and>
         (agent_updates kde ticks a' = Inr a'' \<and> infected a'' \<longrightarrow> travelerBias a'' = 1 / 2) \<and>
         (infected a' \<and> alive a' \<and> socialDistanceBias a' < moveDraw dr2 \<and>
          normals dr2 = z # zs \<and> inside (perturb a' z) \<and>
          agent_update kde dr2 a' landscape2 population2 = Inr a2 \<longrightarrow>
            location a2 =
              round_loc (locationGranularity a')
                (fst (location a') + 1 / 2 * (1 / 10 ^ locationGranularity a') * fst z,
                 snd (location a') + 1 / 2 * (1 / 10 ^ locationGranularity a') * snd z))"
proof -
  note f = agent_update_symptomatic[OF assms]
  from f have sl: "slowed a'" by simp
  have p: "agent_updates kde ticks a' = Inr a'' \<and> infected a'' \<longrightarrow> travelerBias a'' = 1 / 2"
  proof
    assume h: "agent_updates kde ticks a' = Inr a'' \<and> infected a''"
    then have "slowed a''" using sl agent_updates_slowed by blast
    with h show "travelerBias a'' = 1 / 2" by (simp add: slowed_def)
  qed
  have q: "infected a' \<and> alive a' \<and> socialDistanceBias a' < moveDraw dr2 \<and>
          normals dr2 = z # zs \<and> inside (perturb a' z) \<and>
          agent_update kde dr2 a' landscape2 population2 = Inr a2 \<longrightarrow>
            location a2 =
              round_loc (locationGranularity a')
                (fst (location a') + 1 / 2 * (1 / 10 ^ locationGranularity a') * fst z,
                 snd (location a') + 1 / 2 * (1 / 10 ^ locationGranularity a') * snd z)"
  proof
    assume h: "infected a' \<and> alive a' \<and> socialDistanceBias a' < moveDraw dr2 \<and>
          normals dr2 = z # zs \<and> inside (perturb a' z) \<and>
          agent_update kde dr2 a' landscape2 population2 = Inr a2"
    then have m: "agent_move kde dr2 a' population2 = Inr (location a2)"
      using agent_update_location by blast
    have "location a2 = perturb a' z"
      using h m agent_move_first[of a' dr2 z zs kde population2 "location a2"] by blast
    moreover have "travelerBias a' = 1 / 2" using sl h by (simp add: slowed_def)
    ultimately show "location a2 =
              round_loc (locationGranularity a')
                (fst (location a') + 1 / 2 * (1 / 10 ^ locationGranularity a') * fst z,
                 snd (location a') + 1 / 2 * (1 / 10 ^ locationGranularity a') * snd z)"
      by (simp add: perturb_def)
  qed
  from f p q show ?thesis by blast
qed

theorem travel_energy_witness:
  "alive sick_traveler \<and> infected sick_traveler \<and> asymptomaticTimer sick_traveler \<le> 0 \<and>
   travelerBias sick_traveler = 2 \<and>
   agent_update no_kde still_draws sick_traveler hot_env [sick_traveler] = Inr sick_traveler_next \<and>
   travelerBias sick_traveler_next = 1 / 2 \<and>
   travelerBias (sick_traveler_next\<lparr>location := (51 / 100, 1 / 2), infectionTimer := 12\<rparr>) = 1 / 2 \<and>
   location (sick_traveler_next\<lparr>location := (51 / 100, 1 / 2), infectionTimer := 12\<rparr>)
     = round_loc 2 (1 / 2 + 1 / 2 * (1 / 10 ^ 2) * 2, 1 / 2 + 1 / 2 * (1 / 10 ^ 2) * 0)"
proof -
  let ?a2 = "sick_traveler_next\<lparr>location := (51 / 100, 1 / 2), infectionTimer := 12\<rparr>"
  have h: "alive sick_traveler" "infected sick_traveler" "asymptomaticTimer sick_traveler \<le> 0"
    by (simp_all add: sick_traveler_def sick_def patient_def)
  have b: "travelerBias sick_traveler = 2" "infectionTimer sick_traveler \<noteq> 1"
    by (simp_all add: sick_traveler_def sick_def patient_def)
  have r: "agent_updates no_kde [(nudge_draws, hot_env, [sick_traveler_next])] sick_traveler_next
      = Inr ?a2"
    by (simp add: sick_traveler_nudged)
  have n: "infected sick_traveler_next \<and> alive sick_traveler_next \<and>
      socialDistanceBias sick_traveler_next < moveDraw nudge_draws \<and>
      normals nudge_draws = (2, 0) # [] \<and> inside (perturb sick_traveler_next (2, 0)) \<and>
      infected ?a2 \<and> locationGranularity sick_traveler_next = 2 \<and>
      location sick_traveler_next = (1 / 2, 1 / 2)"
    by (simp add: nudge_draws_def perturb_def round_loc_def np_round_def np_rint_def inside_def
        sick_traveler_next_def sick_traveler_def sick_def patient_def)
  from travel_energy[OF h sick_traveler_update,
      of "[(nudge_draws, hot_env, [sick_traveler_next])]" ?a2 nudge_draws "(2, 0)" "[]"
        hot_env "[sick_traveler_next]" ?a2]
    h b r n sick_traveler_update sick_traveler_nudged
  show ?thesis by simp
qed

lemma newborn_init:
  "\<exists>a0. agent_init gamma_cdf newborn_draws (- 1) 0 0 1 2 None = Inr a0 \<and>
        alive a0 \<and> \<not> infected a0 \<and> \<not> protected a0 \<and> \<not> symptomatic a0 \<and>
        socialDistanceBias a0 = 0 \<and> locationGranularity a0 = 2 \<and>
        location a0 = (1 / 2, 1 / 2) \<and> travelerBias a0 = 1 \<and>
        asymptomaticTimer a0 = 1 / 2 \<and> asymptomaticTime a0 = 1 / 2"
  by (simp add: agent_init_def age_distribution_def newborn_draws_def Let_def
      initial_location_def round_loc_def np_round_half)

lemma hot_lookup: "viral_lookup hot_env (50, 50) = Inr 1"
  by (simp add: viral_lookup_def hot_env_def quiet_env_def environment_init_def np_index_def)

lemma hot_cell: "location a = (1 / 2, 1 / 2) \<Longrightarrow> agent_cell hot_env a = (50, 50)"
  by (simp add: agent_cell_def hot_env_def quiet_env_def environment_init_def py_int_def)

lemma newborn_run:
  "\<exists>a0 a2. agent_init gamma_cdf newborn_draws (- 1) 0 0 1 2 None = Inr a0 \<and>
     asymptomaticTimer a0 = 1 / 2 \<and> asymptomaticTime a0 = 1 / 2 \<and>
     agent_updates no_kde [(still_draws, hot_env, []), (still_draws, hot_env, [])] a0 = Inr a2 \<and>
     alive a2 \<and> infected a2 \<and> asymptomaticTimer a2 = - 1 / 2 \<and> \<not> symptomatic a2"
proof -
  from newborn_init[of gamma_cdf] obtain a0
    where i: "agent_init gamma_cdf newborn_draws (- 1) 0 0 1 2 None = Inr a0"
      and f: "alive a0" "\<not> infected a0" "\<not> protected a0" "\<not> symptomatic a0"
        "socialDistanceBias a0 = 0" "locationGranularity a0 = 2"
        "location a0 = (1 / 2, 1 / 2)" "travelerBias a0 = 1"
        "asymptomaticTimer a0 = 1 / 2" "asymptomaticTime a0 = 1 / 2"
    by blast
  define a1 where "a1 = a0\<lparr>location := (1 / 2, 1 / 2), infected := True\<rparr>"
  define a2 where "a2 = a1\<lparr>location := (1 / 2, 1 / 2), asymptomaticTimer := asymptomaticTimer a1 - 1\<rparr>"
  have m0: "agent_move no_kde still_draws a0 [] = Inr (1 / 2, 1 / 2)"
    by (rule still_move) (simp_all add: f)
  have u0: "agent_update no_kde still_draws a0 hot_env [] = Inr a1"
  proof -
    have sd: "stateDraw still_draws = 0" by (simp add: still_draws_def)
    have "agent_update no_kde still_draws a0 hot_env []
        = exposure still_draws (a0\<lparr>location := (1 / 2, 1 / 2)\<rparr>) hot_env"
      using f by (simp add: agent_update_alive[OF f(1) m0])
    also have "\<dots> = Inr a1"
      by (simp add: exposure_def hot_cell hot_lookup sd a1_def)
    finally show ?thesis .
  qed
  have g: "alive a1" "infected a1" "0 < asymptomaticTimer a1"
    by (simp_all add: a1_def f)
  have m1: "agent_move no_kde still_draws a1 [] = Inr (1 / 2, 1 / 2)"
    by (rule still_move) (simp_all add: a1_def f)
  have u1: "agent_update no_kde still_draws a1 hot_env [] = Inr a2"
    using g by (simp add: agent_update_alive[OF g(1) m1] progress_incubating a2_def)
  have r: "agent_updates no_kde [(still_draws, hot_env, []), (still_draws, hot_env, [])] a0 = Inr a2"
    by (simp add: u0 u1)
  have "alive a2 \<and> infected a2 \<and> asymptomaticTimer a2 = - 1 / 2 \<and> \<not> symptomatic a2"
    by (simp add: a2_def a1_def f)
  with i f(9,10) r show ?thesis by blast
qed

section \<open>C9: the symptomatic attribute\<close>

text \<open>
  C9 asks that the attribute \<open>symptomatic\<close> equal "infected and asymptomatic timer not
  positive" after construction and after every update. The source sets
  \<open>self.symptomatic = False\<close> in \<open>__init__\<close>, under the comment "Set initial state
  variables: currently infected, symptomatic, alive, or protected", and never assigns it
  again (\<open>agent_update_frame\<close>). The run below constructs an agent with an asymptomatic
  duration of half a day, infects it on a cell of load 1 and updates it once more: the
  agent is infected with the timer at \<open>-0.5\<close>, and \<open>symptomatic\<close> is still false.
\<close>

theorem symptomatic_never_set:
  "\<exists>a0 a2. agent_init gamma_cdf newborn_draws (- 1) 0 0 1 2 None = Inr a0 \<and>
     agent_updates no_kde [(still_draws, hot_env, []), (still_draws, hot_env, [])] a0 = Inr a2 \<and>
     infected a2 \<and> asymptomaticTimer a2 \<le> 0 \<and> \<not> symptomatic a2"
proof -
  from newborn_run[of gamma_cdf] obtain a0 a2
    where "agent_init gamma_cdf newborn_draws (- 1) 0 0 1 2 None = Inr a0"
      and "agent_updates no_kde [(still_draws, hot_env, []), (still_draws, hot_env, [])] a0 = Inr a2"
      and "infected a2" and "asymptomaticTimer a2 = - 1 / 2" and "\<not> symptomatic a2"
    by blast
  then show ?thesis by (intro exI[of _ a0] exI[of _ a2]) simp
qed

lemma agent_update_timer:
  assumes "agent_update kde dr a landscape population = Inr a'"
  shows "asymptomaticTime a' = asymptomaticTime a \<and>
         ((0 < asymptomaticTimer a \<and> alive a \<and> infected a \<and>
           asymptomaticTimer a' = asymptomaticTimer a - 1) \<or>
          asymptomaticTimer a' = asymptomaticTimer a \<or>
          (asymptomaticTimer a \<le> 0 \<and> alive a \<and> infected a \<and> infectionTimer a = 1 \<and>
           protected a' \<and> \<not> infected a' \<and> asymptomaticTimer a' = asymptomaticTime a))"
  using assms by (cases rule: agent_update_cases) (auto dest: exposure_frame)

lemma agent_update_timer_ok:
  "timer_ok a \<Longrightarrow> agent_update kde dr a landscape population = Inr a' \<Longrightarrow> timer_ok a'"
  using agent_update_timer[of kde dr a landscape population a'] by (auto simp: timer_ok_def)

lemma agent_updates_timer_ok:
  "timer_ok a \<Longrightarrow> agent_updates kde ticks a = Inr a' \<Longrightarrow> timer_ok a'"
proof (induction ticks arbitrary: a)
  case Nil
  then show ?case by simp
next
  case (Cons tick ticks)
  obtain dr landscape population where t: "tick = (dr, landscape, population)"
    by (cases tick) auto
  from Cons.prems(2) t obtain a1 where u: "agent_update kde dr a landscape population = Inr a1"
    and r: "agent_updates kde ticks a1 = Inr a'"
    by (cases "agent_update kde dr a landscape population") simp_all
  from agent_update_timer_ok[OF Cons.prems(1) u] have "timer_ok a1" .
  then show ?case using r by (rule Cons.IH)
qed

lemma agent_updates_frame:
  "agent_updates kde ticks a = Inr a' \<Longrightarrow>
   travelerBiasO a' = travelerBiasO a \<and> infectionTime a' = infectionTime a \<and>
   asymptomaticTime a' = asymptomaticTime a \<and> age a' = age a \<and> symptomatic a' = symptomatic a"
proof (induction ticks arbitrary: a)
  case Nil
  then show ?case by simp
next
  case (Cons tick ticks)
  obtain dr landscape population where t: "tick = (dr, landscape, population)"
    by (cases tick) auto
  from Cons.prems t obtain a1 where u: "agent_update kde dr a landscape population = Inr a1"
    and r: "agent_updates kde ticks a1 = Inr a'"
    by (cases "agent_update kde dr a landscape population") simp_all
  from agent_update_frame[OF u] Cons.IH[OF r] show ?case by simp
qed

section \<open>C10: the asymptomatic timer\<close>

text \<open>
  C10: \<open>agent.update\<close> changes the asymptomatic timer in two ways only: it subtracts 1
  when the timer is strictly positive, and the recovery resets it to the sampled
  duration. So for every agent constructed with a sampled duration that is not negative,
  the timer is greater than \<open>-1\<close> after any sequence of updates; a timer in \<open>(-1, 0]\<close>
  stays as it is until the recovery resets it; and the timer can become negative (the
  run of \<open>newborn_run\<close> ends at \<open>-0.5\<close>).
\<close>

theorem asymptomatic_timer:
  "(agent_init gamma_cdf dr0 ab cb sb tb g ilb = Inr a0 \<and> 0 \<le> gammaDraw dr0 \<and>
    agent_updates kde ticks a0 = Inr a \<longrightarrow>
      asymptomaticTimer a0 = gammaDraw dr0 \<and> - 1 < asymptomaticTimer a \<and>
      asymptomaticTime a = gammaDraw dr0) \<and>
   (agent_update kde dr b landscape population = Inr b' \<longrightarrow>
      (0 < asymptomaticTimer b \<and> asymptomaticTimer b' = asymptomaticTimer b - 1) \<or>
      asymptomaticTimer b' = asymptomaticTimer b \<or>
      (asymptomaticTimer b \<le> 0 \<and> infectionTimer b = 1 \<and> protected b' \<and> \<not> infected b' \<and>
       asymptomaticTimer b' = asymptomaticTime b)) \<and>
   (- 1 < asymptomaticTimer b \<and> asymptomaticTimer b \<le> 0 \<and>
    agent_update kde dr b landscape population = Inr b' \<longrightarrow>
      (- 1 < asymptomaticTimer b' \<and> asymptomaticTimer b' \<le> 0 \<and>
       asymptomaticTimer b' = asymptomaticTimer b) \<or>
      (infectionTimer b = 1 \<and> protected b' \<and> \<not> infected b' \<and>
       asymptomaticTimer b' = asymptomaticTime b)) \<and>
   (\<exists>c0 c. agent_init gamma_cdf newborn_draws (- 1) 0 0 1 2 None = Inr c0 \<and>
      0 \<le> asymptomaticTimer c0 \<and>
      agent_updates no_kde [(still_draws, hot_env, []), (still_draws, hot_env, [])] c0 = Inr c \<and>
      asymptomaticTimer c < 0)"
proof -
  have run: "agent_init gamma_cdf dr0 ab cb sb tb g ilb = Inr a0 \<and> 0 \<le> gammaDraw dr0 \<and>
    agent_updates kde ticks a0 = Inr a \<longrightarrow>
      asymptomaticTimer a0 = gammaDraw dr0 \<and> - 1 < asymptomaticTimer a \<and>
      asymptomaticTime a = gammaDraw dr0"
  proof
    assume h: "agent_init gamma_cdf dr0 ab cb sb tb g ilb = Inr a0 \<and> 0 \<le> gammaDraw dr0 \<and>
      agent_updates kde ticks a0 = Inr a"
    from h agent_init_fields[of gamma_cdf dr0 ab cb sb tb g ilb a0]
    have f: "asymptomaticTimer a0 = gammaDraw dr0" "asymptomaticTime a0 = gammaDraw dr0"
      by simp_all
    with h have "timer_ok a0" by (simp add: timer_ok_def)
    with h have "timer_ok a" using agent_updates_timer_ok by blast
    moreover have "asymptomaticTime a = asymptomaticTime a0"
      using h agent_updates_frame by blast
    ultimately show "asymptomaticTimer a0 = gammaDraw dr0 \<and> - 1 < asymptomaticTimer a \<and>
        asymptomaticTime a = gammaDraw dr0"
      using f by (simp add: timer_ok_def)
  qed
  have step: "agent_update kde dr b landscape population = Inr b' \<longrightarrow>
      (0 < asymptomaticTimer b \<and> asymptomaticTimer b' = asymptomaticTimer b - 1) \<or>
      asymptomaticTimer b' = asymptomaticTimer b \<or>
      (asymptomaticTimer b \<le> 0 \<and> infectionTimer b = 1 \<and> protected b' \<and> \<not> infected b' \<and>
       asymptomaticTimer b' = asymptomaticTime b)"
    using agent_update_timer[of kde dr b landscape population b'] by blast
  have fixed: "- 1 < asymptomaticTimer b \<and> asymptomaticTimer b \<le> 0 \<and>
    agent_update kde dr b landscape population = Inr b' \<longrightarrow>
      (- 1 < asymptomaticTimer b' \<and> asymptomaticTimer b' \<le> 0 \<and>
       asymptomaticTimer b' = asymptomaticTimer b) \<or>
      (infectionTimer b = 1 \<and> protected b' \<and> \<not> infected b' \<and>
       asymptomaticTimer b' = asymptomaticTime b)"
    using agent_update_timer[of kde dr b landscape population b'] by auto
  have negative: "\<exists>c0 c. agent_init gamma_cdf newborn_draws (- 1) 0 0 1 2 None = Inr c0 \<and>
      0 \<le> asymptomaticTimer c0 \<and>
      agent_updates no_kde [(still_draws, hot_env, []), (still_draws, hot_env, [])] c0 = Inr c \<and>
      asymptomaticTimer c < 0"
  proof -
    from newborn_run[of gamma_cdf] obtain c0 c
      where "agent_init gamma_cdf newborn_draws (- 1) 0 0 1 2 None = Inr c0"
        and "asymptomaticTimer c0 = 1 / 2"
        and "agent_updates no_kde [(still_draws, hot_env, []), (still_draws, hot_env, [])] c0 = Inr c"
        and "asymptomaticTimer c = - 1 / 2"
      by blast
    then show ?thesis by (intro exI[of _ c0] exI[of _ c]) simp
  qed
  from run step fixed negative show ?thesis by (intro conjI)
qed

theorem asymptomatic_timer_witness:
  "(\<exists>a0 a. agent_init (\<lambda>x. 0) newborn_draws (- 1) 0 0 1 2 None = Inr a0 \<and>
      0 \<le> gammaDraw newborn_draws \<and>
      agent_updates no_kde [(still_draws, hot_env, []), (still_draws, hot_env, [])] a0 = Inr a \<and>
      - 1 < asymptomaticTimer a \<and> asymptomaticTimer a < 0) \<and>
   - 1 < asymptomaticTimer sick_traveler \<and> asymptomaticTimer sick_traveler \<le> 0 \<and>
   agent_update no_kde still_draws sick_traveler hot_env [sick_traveler] = Inr sick_traveler_next \<and>
   asymptomaticTimer sick_traveler_next = asymptomaticTimer sick_traveler"
proof -
  from newborn_run[of "\<lambda>x. 0"] obtain a0 a
    where i: "agent_init (\<lambda>x. 0) newborn_draws (- 1) 0 0 1 2 None = Inr a0"
      and r: "agent_updates no_kde [(still_draws, hot_env, []), (still_draws, hot_env, [])] a0 = Inr a"
      and n: "asymptomaticTimer a = - 1 / 2"
    by blast
  have g: "0 \<le> gammaDraw newborn_draws" by (simp add: newborn_draws_def)
  have t: "- 1 < asymptomaticTimer sick_traveler" "asymptomaticTimer sick_traveler \<le> 0"
    "infectionTimer sick_traveler \<noteq> 1"
    by (simp_all add: sick_traveler_def sick_def patient_def)
  note inst = asymptomatic_timer[of "\<lambda>x. 0" newborn_draws "- 1" 0 0 1 2 None a0 no_kde
      "[(still_draws, hot_env, []), (still_draws, hot_env, [])]" a still_draws sick_traveler
      hot_env "[sick_traveler]" sick_traveler_next]
  from inst i r g have "- 1 < asymptomaticTimer a" by blast
  moreover from inst t sick_traveler_update
  have "asymptomaticTimer sick_traveler_next = asymptomaticTimer sick_traveler" by blast
  ultimately show ?thesis using i r g n t sick_traveler_update by auto
qed

lemma np_rint_lower: "0 \<le> x \<Longrightarrow> 0 \<le> np_rint x"
proof -
  assume "0 \<le> x"
  then have "0 \<le> \<lfloor>x\<rfloor>" by simp
  then show ?thesis by (simp add: np_rint_def Let_def)
qed

lemma np_rint_upper: "x \<le> real_of_int n \<Longrightarrow> np_rint x \<le> n"
proof -
  assume h: "x \<le> real_of_int n"
  then have f: "\<lfloor>x\<rfloor> \<le> n" by (simp add: floor_le_iff)
  show ?thesis
  proof (cases "x - real_of_int \<lfloor>x\<rfloor> < 1 / 2")
    case True
    then show ?thesis using f by (simp add: np_rint_def Let_def)
  next
    case False
    then have "real_of_int \<lfloor>x\<rfloor> < x" by linarith
    then have "real_of_int \<lfloor>x\<rfloor> < real_of_int n" using h by linarith
    then have "\<lfloor>x\<rfloor> + 1 \<le> n" by linarith
    then show ?thesis using f by (simp add: np_rint_def Let_def)
  qed
qed

lemma np_round_unit: "0 \<le> x \<Longrightarrow> x \<le> 1 \<Longrightarrow> 0 \<le> np_round g x \<and> np_round g x \<le> 1"
proof -
  assume h: "0 \<le> x" "x \<le> 1"
  have "0 \<le> x * 10 ^ g" using h by simp
  then have l: "0 \<le> np_rint (x * 10 ^ g)" by (rule np_rint_lower)
  have "x * 10 ^ g \<le> 1 * 10 ^ g" using h by (intro mult_right_mono) simp_all
  then have "x * 10 ^ g \<le> real_of_int (10 ^ g)" by simp
  then have u: "np_rint (x * 10 ^ g) \<le> 10 ^ g" by (rule np_rint_upper)
  have "real_of_int (np_rint (x * 10 ^ g)) \<le> real_of_int (10 ^ g)"
    using u by (simp only: of_int_le_iff)
  then have "real_of_int (np_rint (x * 10 ^ g)) \<le> 10 ^ g" by simp
  then have "real_of_int (np_rint (x * 10 ^ g)) / 10 ^ g \<le> 1" by (simp add: divide_le_eq)
  moreover have "0 \<le> real_of_int (np_rint (x * 10 ^ g)) / 10 ^ g" using l by simp
  ultimately show ?thesis by (simp add: np_round_def)
qed

lemma clamp01_unit: "0 \<le> clamp01 x \<and> clamp01 x \<le> 1"
  by (simp add: clamp01_def)

lemma initial_location_unit:
  assumes "unit_draw (fst (locUniform dr))" and "unit_draw (snd (locUniform dr))"
  shows "0 \<le> fst (initial_location dr g ilb) \<and> fst (initial_location dr g ilb) \<le> 1 \<and>
         0 \<le> snd (initial_location dr g ilb) \<and> snd (initial_location dr g ilb) \<le> 1"
proof (cases ilb)
  case None
  have "0 \<le> np_round g (fst (locUniform dr)) \<and> np_round g (fst (locUniform dr)) \<le> 1"
    using assms(1) by (intro np_round_unit) (simp_all add: unit_draw_def)
  moreover have "0 \<le> np_round g (snd (locUniform dr)) \<and> np_round g (snd (locUniform dr)) \<le> 1"
    using assms(2) by (intro np_round_unit) (simp_all add: unit_draw_def)
  ultimately show ?thesis using None by (simp add: initial_location_def round_loc_def)
next
  case (Some b)
  then show ?thesis by (simp add: initial_location_def Let_def clamp01_unit)
qed

lemma rejection_age_range: "rejection_age mean zs = Inr x \<Longrightarrow> 0 \<le> x \<and> x \<le> 104"
  by (induction zs) (auto split: if_splits)

lemma age_distribution_range:
  assumes "age_distribution dr mean = Inr x" and "ageGroup dr \<le> 20" and "unit_draw (ageOffset dr)"
  shows "0 \<le> x \<and> x \<le> 104"
proof (cases "mean \<le> 0")
  case True
  with assms(1) have x: "x = 5 * real (ageGroup dr) + 4 * ageOffset dr"
    by (simp add: age_distribution_def)
  have "real (ageGroup dr) \<le> 20" using assms(2) by simp
  then show ?thesis using x assms(3) by (simp add: unit_draw_def)
next
  case False
  with assms(1) show ?thesis by (simp add: age_distribution_def rejection_age_range)
qed

lemma agent_init_well_placed:
  assumes "agent_init gamma_cdf dr ab cb sb tb g ilb = Inr a" and "ageGroup dr \<le> 20"
    and "unit_draw (ageOffset dr)"
    and "unit_draw (fst (locUniform dr))" and "unit_draw (snd (locUniform dr))"
  shows "well_placed a"
proof -
  from assms(1) obtain x where x: "age_distribution dr ab = Inr x"
    by (cases "age_distribution dr ab") (simp_all add: agent_init_def)
  with assms(1) have f: "age a = x" "location a = initial_location dr g ilb"
    by (auto simp: agent_init_def Let_def)
  from age_distribution_range[OF x assms(2,3)] initial_location_unit[OF assms(4,5), of g ilb] f
  show ?thesis by (simp add: well_placed_def in_unit_square_def)
qed

lemma agent_update_well_placed:
  assumes "well_placed a" and "agent_update kde dr a landscape population = Inr a'"
  shows "well_placed a'"
proof (cases "alive a")
  case False
  with assms show ?thesis by (simp add: agent_update_dead)
next
  case True
  from agent_update_location[OF True assms(2)] have "inside (location a')"
    by (rule agent_move_inside)
  moreover have "age a' = age a" using agent_update_frame[OF assms(2)] by simp
  ultimately show ?thesis using assms(1)
    by (simp add: well_placed_def in_unit_square_def inside_def)
qed

lemma agent_updates_well_placed:
  "well_placed a \<Longrightarrow> agent_updates kde ticks a = Inr a' \<Longrightarrow> well_placed a'"
proof (induction ticks arbitrary: a)
  case Nil
  then show ?case by simp
next
  case (Cons tick ticks)
  obtain dr landscape population where t: "tick = (dr, landscape, population)"
    by (cases tick) auto
  from Cons.prems(2) t obtain a1 where u: "agent_update kde dr a landscape population = Inr a1"
    and r: "agent_updates kde ticks a1 = Inr a'"
    by (cases "agent_update kde dr a landscape population") simp_all
  from agent_update_well_placed[OF Cons.prems(1) u] have "well_placed a1" .
  then show ?case using r by (rule Cons.IH)
qed

lemma py_int_unit:
  assumes "0 \<le> x" and "x \<le> 1" and "0 \<le> s"
  shows "0 \<le> py_int (x * real_of_int s) \<and> py_int (x * real_of_int s) \<le> s"
proof -
  have n: "0 \<le> x * real_of_int s" using assms by simp
  have "x * real_of_int s \<le> 1 * real_of_int s" using assms by (intro mult_right_mono) simp_all
  then have "\<lfloor>x * real_of_int s\<rfloor> \<le> s" by (simp add: floor_le_iff)
  moreover have "0 \<le> \<lfloor>x * real_of_int s\<rfloor>" using n by simp
  ultimately show ?thesis using n by (simp add: py_int_def)
qed

lemma unit_square_on_grid:
  assumes "in_unit_square (location a)" and "0 \<le> scale env"
  shows "on_grid env (agent_cell env a) \<and>
         viral_lookup env (agent_cell env a) = Inr (viralMap env (agent_cell env a))"
proof -
  from assms have i: "0 \<le> fst (agent_cell env a) \<and> fst (agent_cell env a) \<le> scale env"
    unfolding agent_cell_def fst_conv by (intro py_int_unit) (simp_all add: in_unit_square_def)
  from assms have j: "0 \<le> snd (agent_cell env a) \<and> snd (agent_cell env a) \<le> scale env"
    unfolding agent_cell_def snd_conv by (intro py_int_unit) (simp_all add: in_unit_square_def)
  from i j show ?thesis by (simp add: on_grid_def viral_lookup_def np_index_def)
qed

lemma agent_update_no_IndexError:
  assumes "alive a" and "agent_move kde dr a population = Inr l" and "0 \<le> scale landscape"
  shows "agent_update kde dr a landscape population \<noteq> Inl IndexError"
proof -
  have "inside l" using assms(2) by (rule agent_move_inside)
  then have "in_unit_square (location (a\<lparr>location := l\<rparr>))"
    by (simp add: in_unit_square_def inside_def)
  from unit_square_on_grid[OF this assms(3)]
  have e: "exposure dr (a\<lparr>location := l\<rparr>) landscape \<noteq> Inl IndexError"
    by (simp add: exposure_def)
  have p: "progress dr (a\<lparr>location := l\<rparr>) \<noteq> Inl IndexError"
    by (simp add: progress_def Let_def)
  from e p show ?thesis by (simp add: agent_update_alive[OF assms(1,2)])
qed

section \<open>C8: ages, positions and grid indices stay in range\<close>

text \<open>
  C8: after construction (with \<open>np.random.choice\<close> returning an index of the 21 age
  groups and the uniform draws lying in \<open>[0, 1)\<close>) and after every \<open>agent.update\<close> call
  that returns, \<open>age\<close> lies in \<open>[0, 104]\<close> and both position components lie in
  \<open>[0, 1]\<close>. For such an agent the indices \<open>int(position * scale)\<close> lie in
  \<open>[0, scale]\<close>, inside the \<open>(scale+1) x (scale+1)\<close> array: the lookup of
  \<open>agent.update\<close> reads that very cell (no IndexError, no wrap-around of a negative
  index) and the cell passes the grid test of \<open>environment.update\<close>. The scale of a
  constructed environment is \<open>10 ** locationGranularity\<close> and no update changes it.
\<close>

theorem agent_bounds:
  "(agent_init gamma_cdf dr0 ab cb sb tb g ilb = Inr a0 \<and> ageGroup dr0 \<le> 20 \<and>
    unit_draw (ageOffset dr0) \<and> unit_draw (fst (locUniform dr0)) \<and>
    unit_draw (snd (locUniform dr0)) \<longrightarrow> well_placed a0) \<and>
   (well_placed a \<and> agent_update kde dr a landscape population = Inr a' \<longrightarrow> well_placed a') \<and>
   (well_placed a \<and> agent_updates kde ticks a = Inr a'' \<longrightarrow> well_placed a'') \<and>
   (well_placed a \<and> 0 \<le> scale env \<longrightarrow>
      on_grid env (agent_cell env a) \<and>
      viral_lookup env (agent_cell env a) = Inr (viralMap env (agent_cell env a))) \<and>
   (alive a \<and> agent_move kde dr a population = Inr l \<and> 0 \<le> scale landscape \<longrightarrow>
      agent_update kde dr a landscape population \<noteq> Inl IndexError) \<and>
   0 \<le> scale (environment_init g2 att aoe) \<and>
   scale (environment_update env population) = scale env"
proof -
  have init: "agent_init gamma_cdf dr0 ab cb sb tb g ilb = Inr a0 \<and> ageGroup dr0 \<le> 20 \<and>
    unit_draw (ageOffset dr0) \<and> unit_draw (fst (locUniform dr0)) \<and>
    unit_draw (snd (locUniform dr0)) \<longrightarrow> well_placed a0"
    using agent_init_well_placed by blast
  have step: "well_placed a \<and> agent_update kde dr a landscape population = Inr a' \<longrightarrow>
    well_placed a'"
    using agent_update_well_placed by blast
  have run: "well_placed a \<and> agent_updates kde ticks a = Inr a'' \<longrightarrow> well_placed a''"
    using agent_updates_well_placed by blast
  have grid: "well_placed a \<and> 0 \<le> scale env \<longrightarrow>
      on_grid env (agent_cell env a) \<and>
      viral_lookup env (agent_cell env a) = Inr (viralMap env (agent_cell env a))"
    using unit_square_on_grid[of a env] by (simp add: well_placed_def)
  have index: "alive a \<and> agent_move kde dr a population = Inr l \<and> 0 \<le> scale landscape \<longrightarrow>
      agent_update kde dr a landscape population \<noteq> Inl IndexError"
    using agent_update_no_IndexError by blast
  have sc: "0 \<le> scale (environment_init g2 att aoe)"
    by (simp add: environment_init_def)
  have fr: "scale (environment_update env population) = scale env"
    by (simp add: environment_update_def)
  from init step run grid index sc fr show ?thesis by (intro conjI)
qed

theorem agent_bounds_witness:
  "(\<exists>a0. agent_init (\<lambda>x. 0) newborn_draws (- 1) 0 0 1 2 None = Inr a0 \<and> well_placed a0) \<and>
   well_placed survivor \<and>
   agent_update no_kde still_draws survivor hot_env [survivor] = Inr survivor \<and>
   agent_updates no_kde [(still_draws, hot_env, [survivor])] survivor = Inr survivor \<and>
   0 \<le> scale hot_env \<and> on_grid hot_env (agent_cell hot_env survivor) \<and>
   alive survivor \<and> agent_move no_kde still_draws survivor [survivor] = Inr (1 / 2, 1 / 2) \<and>
   agent_update no_kde still_draws survivor hot_env [survivor] \<noteq> Inl IndexError"
proof -
  from newborn_init[of "\<lambda>x. 0"] obtain a0
    where i: "agent_init (\<lambda>x. 0) newborn_draws (- 1) 0 0 1 2 None = Inr a0" by blast
  have d: "ageGroup newborn_draws \<le> 20" "unit_draw (ageOffset newborn_draws)"
    "unit_draw (fst (locUniform newborn_draws))" "unit_draw (snd (locUniform newborn_draws))"
    by (simp_all add: newborn_draws_def unit_draw_def)
  have w: "well_placed survivor"
    by (simp add: well_placed_def in_unit_square_def survivor_def patient_def)
  have r: "agent_updates no_kde [(still_draws, hot_env, [survivor])] survivor = Inr survivor"
    by (simp add: survivor_update)
  have s: "0 \<le> scale hot_env"
    by (simp add: hot_env_def quiet_env_def environment_init_def)
  have al: "alive survivor" by (simp add: survivor_def patient_def)
  have m: "agent_move no_kde still_draws survivor [survivor] = Inr (1 / 2, 1 / 2)"
    by (rule still_move) (simp_all add: survivor_def patient_def)
  note inst = agent_bounds[of "\<lambda>x. 0" newborn_draws "- 1" 0 0 1 2 None a0 survivor no_kde
      still_draws hot_env "[survivor]" survivor "[(still_draws, hot_env, [survivor])]" survivor
      hot_env "(1 / 2, 1 / 2)"]
  from inst i d have "well_placed a0" by blast
  with i have e: "\<exists>a0. agent_init (\<lambda>x. 0) newborn_draws (- 1) 0 0 1 2 None = Inr a0 \<and> well_placed a0"
    by blast
  from inst w s have g: "on_grid hot_env (agent_cell hot_env survivor)" by blast
  from inst al m s have n: "agent_update no_kde still_draws survivor hot_env [survivor] \<noteq> Inl IndexError"
    by blast
  from e w survivor_update r s g al m n show ?thesis by (intro conjI)
qed

end
